theory Spec2Isabelle
  imports Complex_Main
begin

section \<open>Values, errors and observable calls\<close>

text \<open>
  The orchestrator of \<^verbatim>\<open>speedrun.py\<close> talks to three outside parties: the \<^verbatim>\<open>vastai\<close>
  command line (the marketplace backend), an SSH/SCP session on the rented instance, and the
  local filesystem. Every answer of an outside party is an input of the model (a field of
  the record \<open>world\<close>), every call to one is an entry of the trace the model returns, and
  every exception is a value \<open>Inl e\<close>.

  \<open>RuntimeError\<close>, \<open>KeyError\<close>, \<open>TypeError\<close> and \<open>ValueError\<close> are the Python exceptions of
  those names; \<open>External\<close> stands for any other exception raised inside a library call
  (paramiko, scp, tarfile, os, or \<^verbatim>\<open>print\<close> on a standard output that is gone). Python
  floats are modelled as reals: rounding and overflow are not part of the model. Strings
  are lists of code points below 256.
\<close>

datatype error = RuntimeError string | KeyError string | TypeError | ValueError | External string

text \<open>A value parsed by \<^verbatim>\<open>json.loads\<close>; a dict is an association list read by its first binding.\<close>

datatype json =
    JNull
  | JBool bool
  | JInt int
  | JFloat real
  | JStr string
  | JList "json list"
  | JObj "(string \<times> json) list"

type_synonym dict = "(string \<times> json) list"

text \<open>
  An offer as \<^verbatim>\<open>search offers\<close> returns it: a dict. Its \<^verbatim>\<open>id\<close>, which
  \<^verbatim>\<open>create_instance\<close> takes as an \<^verbatim>\<open>int\<close>, is kept apart from the other entries, which are
  as the backend sent them.
\<close>

record offer =
  offer_id :: int
  offer_fields :: dict

text \<open>The result of one remote command: decoded stdout, stderr, and the exit status.\<close>

record exec_result =
  out :: string
  err :: string
  status :: int

text \<open>An entry of the project directory: a regular file, or a directory with its entries.\<close>

datatype entry = File string | Dir string "entry list"

datatype event =
    Search string string
  | CreateInstance int
  | ShowInstances
  | DestroyInstance int
  | MkTemp string
  | TarWrite string "string list"
  | Unlink string
  | SshConnect json json
  | ScpPut string string
  | Exec string
  | Mkdir string
  | ScpGet string string
  | SshClose
  | PrintCost real

text \<open>
  A trace lists the calls in the order they were made, each with whether it returned
  normally (\<open>True\<close>) or raised (\<open>False\<close>). A computation is its trace and its outcome.
\<close>

text \<open>
  The world answers a search by its query and ordering, a poll by its number, and a remote
  command by its text: the queries of one run are pairwise distinct, and so are its
  commands, so nothing is lost. The listed instances and the offers are dicts and
  the contract id is an integer, as the signatures of the source say. The three clock
  fields are the readings of \<^verbatim>\<open>time.time()\<close> at the start of \<^verbatim>\<open>run\<close>, when the cost is
  computed, and when the results directory is named. The two print fields are what the
  two \<^verbatim>\<open>print\<close> statements of \<^verbatim>\<open>destroy_instance\<close> do, before and after the command; the
  other progress lines are taken to be printed.
\<close>

type_synonym trace = "(event \<times> bool) list"

type_synonym 'a io = "trace \<times> (error + 'a)"

record world =
  clock_start :: real
  clock_cost :: real
  clock_results :: real
  search_resp :: "string \<Rightarrow> string \<Rightarrow> error + offer list"
  create_resp :: "int \<Rightarrow> error + int"
  show_resp :: "nat \<Rightarrow> error + dict list"
  destroy_resp :: "int \<Rightarrow> error + unit"
  destroying_print :: "error + unit"
  destroyed_print :: "error + unit"
  project_items :: "entry list"
  project_name :: string
  mktemp_resp :: "error + string"
  tar_resp :: "error + unit"
  unlink_resp :: "string \<Rightarrow> error + unit"
  connect_resp :: "error + unit"
  put_resp :: "error + unit"
  exec_resp :: "string \<Rightarrow> error + exec_result"
  dir_exists :: "string \<Rightarrow> bool"
  mkdir_resp :: "error + unit"
  get_resp :: "string \<Rightarrow> string \<Rightarrow> error + unit"

section \<open>Sequencing, exceptions and \<^verbatim>\<open>finally\<close>\<close>

definition io_return :: "'a \<Rightarrow> 'a io" where
  "io_return x = ([], Inr x)"

definition io_raise :: "error \<Rightarrow> 'a io" where
  "io_raise e = ([], Inl e)"

definition io_lift :: "error + 'a \<Rightarrow> 'a io" where
  "io_lift r = ([], r)"

definition io_call :: "event \<Rightarrow> error + 'a \<Rightarrow> 'a io" where
  "io_call ev r = ([(ev, \<not> isl r)], r)"

definition io_bind :: "'a io \<Rightarrow> ('a \<Rightarrow> 'b io) \<Rightarrow> 'b io" where
  "io_bind m f =
     (case snd m of
        Inl e \<Rightarrow> (fst m, Inl e)
      | Inr x \<Rightarrow> (fst m @ fst (f x), snd (f x)))"

text \<open>
  Python's \<^verbatim>\<open>try: body finally: fin\<close>: the finaliser runs whatever the body did; when it
  raises, its exception replaces the body's outcome, otherwise the body's outcome stands.
\<close>

definition try_finally :: "'a io \<Rightarrow> unit io \<Rightarrow> 'a io" where
  "try_finally body fin =
     (fst body @ fst fin,
      case snd fin of Inl e \<Rightarrow> Inl e | Inr _ \<Rightarrow> snd body)"

section \<open>Strings and paths\<close>

text \<open>
  \<^verbatim>\<open>str.strip()\<close>, \<^verbatim>\<open>str.split(sep)\<close> and \<^verbatim>\<open>sep.join(parts)\<close>; \<open>is_space\<close> is
  \<^verbatim>\<open>str.isspace\<close> on the code points below 256: the ASCII white space, the four
  separators \<^verbatim>\<open>0x1C\<close> to \<^verbatim>\<open>0x1F\<close>, next line \<^verbatim>\<open>0x85\<close> and no-break space \<^verbatim>\<open>0xA0\<close>.
\<close>

definition is_space :: "char \<Rightarrow> bool" where
  "is_space c \<longleftrightarrow>
     c \<in> set [CHR '' '', CHR 0x09, CHR 0x0A, CHR 0x0B, CHR 0x0C, CHR 0x0D,
              CHR 0x1C, CHR 0x1D, CHR 0x1E, CHR 0x1F, CHR 0x85, CHR 0xA0]"

definition strip :: "string \<Rightarrow> string" where
  "strip s = rev (dropWhile is_space (rev (dropWhile is_space s)))"

fun split_on :: "char \<Rightarrow> string \<Rightarrow> string list" where
  "split_on sep [] = [[]]"
| "split_on sep (c # cs) =
     (if c = sep then [] # split_on sep cs
      else (case split_on sep cs of
              [] \<Rightarrow> [[c]]
            | p # ps \<Rightarrow> (c # p) # ps))"

fun join_with :: "string \<Rightarrow> string list \<Rightarrow> string" where
  "join_with sep [] = []"
| "join_with sep [p] = p"
| "join_with sep (p # q # ps) = p @ sep @ join_with sep (q # ps)"

text \<open>\<^verbatim>\<open>name.startswith('.')\<close>.\<close>

definition startswith_dot :: "string \<Rightarrow> bool" where
  "startswith_dot n = (case n of [] \<Rightarrow> False | c # _ \<Rightarrow> c = CHR ''.'')"

text \<open>\<^verbatim>\<open>sub in s\<close> on strings.\<close>

fun contains :: "string \<Rightarrow> string \<Rightarrow> bool" where
  "contains sub [] = (sub = [])"
| "contains sub (c # cs) = (take (length sub) (c # cs) = sub \<or> contains sub cs)"

text \<open>
  \<^verbatim>\<open>Path(p).name\<close> of a POSIX path: the last component, empty and \<^verbatim>\<open>.\<close> components
  dropped; empty when there is none.
\<close>

definition path_name :: "string \<Rightarrow> string" where
  "path_name p =
     (let parts = filter (\<lambda>c. c \<noteq> [] \<and> c \<noteq> ''.'') (split_on CHR ''/'' p)
      in if parts = [] then [] else last parts)"

text \<open>\<^verbatim>\<open>str(Path(d) / f)\<close> for a relative \<open>f\<close> without a slash.\<close>

definition path_join :: "string \<Rightarrow> string \<Rightarrow> string" where
  "path_join d f = (if f = [] then d else d @ ''/'' @ f)"

text \<open>\<^verbatim>\<open>str(n)\<close> of an integer, in decimal.\<close>

function str_nat :: "nat \<Rightarrow> string" where
  "str_nat n =
     (if n < 10 then [''0123456789'' ! n]
      else str_nat (n div 10) @ [''0123456789'' ! (n mod 10)])"
  by pat_completeness auto
termination
  by (relation "measure id") auto

definition str_int :: "int \<Rightarrow> string" where
  "str_int i = (if i < 0 then CHR ''-'' # str_nat (nat (- i)) else str_nat (nat i))"

text \<open>\<^verbatim>\<open>int(x)\<close> of a float: truncation towards zero.\<close>

definition py_int :: "real \<Rightarrow> int" where
  "py_int x = (if 0 \<le> x then \<lfloor>x\<rfloor> else \<lceil>x\<rceil>)"

section \<open>The marketplace client (class \<^verbatim>\<open>VastAI\<close>)\<close>

definition tier1_query :: string where
  "tier1_query = ''rentable=true reliability>0.95 num_gpus>=4 dph_total<10.0''"

definition tier2_query :: string where
  "tier2_query = ''rentable=true reliability>0.95 num_gpus>=4''"

definition tier3_query :: string where
  "tier3_query = ''rentable=true reliability>0.95 num_gpus>=2''"

definition tier4_query :: string where
  "tier4_query = ''rentable=true reliability>0.95''"

definition order_gpus_ram :: string where
  "order_gpus_ram = ''num_gpus-,gpu_total_ram-''"

definition order_ram :: string where
  "order_ram = ''gpu_total_ram-''"

text \<open>
  One \<^verbatim>\<open>vastai search offers <query> --order <order> --limit 10 --raw\<close>; a failing command
  or an unreadable answer is the \<open>RuntimeError\<close> of \<^verbatim>\<open>_run_vastai_cmd\<close>.
\<close>

definition search_offers :: "world \<Rightarrow> string \<Rightarrow> string \<Rightarrow> offer list io" where
  "search_offers w query ord = io_call (Search query ord) (search_resp w query ord)"

text \<open>
  A JSON number as a float: \<^verbatim>\<open>int\<close>, \<^verbatim>\<open>float\<close> and \<^verbatim>\<open>bool\<close> take part in arithmetic and
  in the format \<^verbatim>\<open>.2f\<close>, nothing else does.
\<close>

fun py_float :: "json \<Rightarrow> real option" where
  "py_float (JInt i) = Some (of_int i)"
| "py_float (JFloat r) = Some r"
| "py_float (JBool b) = Some (if b then 1 else 0)"
| "py_float _ = None"

text \<open>\<^verbatim>\<open>v / 1024\<close>.\<close>

definition py_div_1024 :: "json \<Rightarrow> error + real" where
  "py_div_1024 v = (case py_float v of None \<Rightarrow> Inl TypeError | Some x \<Rightarrow> Inr (x / 1024))"

text \<open>
  Whether \<^verbatim>\<open>f"{v:.2f}"\<close> can be formatted: a number can, a string raises \<open>ValueError\<close>,
  anything else \<open>TypeError\<close>.
\<close>

fun py_format_f :: "json \<Rightarrow> error + unit" where
  "py_format_f (JStr s) = Inl ValueError"
| "py_format_f v = (case py_float v of None \<Rightarrow> Inl TypeError | Some x \<Rightarrow> Inr ())"

text \<open>
  Lines 89 to 93 of \<^verbatim>\<open>find_best_gpu\<close>, in the order the subscripts, the divisions and the
  format specifications are evaluated: \<^verbatim>\<open>gpu_ram\<close> and \<^verbatim>\<open>gpu_total_ram\<close> are read and
  divided, \<^verbatim>\<open>num_gpus\<close> and \<^verbatim>\<open>gpu_name\<close> are read (any value can be printed), and
  \<^verbatim>\<open>dph_total\<close> is read and formatted with \<^verbatim>\<open>.2f\<close>.
\<close>

definition announce_offer :: "offer \<Rightarrow> error + unit" where
  "announce_offer best =
     (case map_of (offer_fields best) ''gpu_ram'' of
        None \<Rightarrow> Inl (KeyError ''gpu_ram'')
      | Some gpu_ram \<Rightarrow>
     (case py_div_1024 gpu_ram of
        Inl e \<Rightarrow> Inl e
      | Inr gpu_ram_gb \<Rightarrow>
     (case map_of (offer_fields best) ''gpu_total_ram'' of
        None \<Rightarrow> Inl (KeyError ''gpu_total_ram'')
      | Some gpu_total_ram \<Rightarrow>
     (case py_div_1024 gpu_total_ram of
        Inl e \<Rightarrow> Inl e
      | Inr total_gpu_ram_gb \<Rightarrow>
     (case map_of (offer_fields best) ''num_gpus'' of
        None \<Rightarrow> Inl (KeyError ''num_gpus'')
      | Some num_gpus \<Rightarrow>
     (case map_of (offer_fields best) ''gpu_name'' of
        None \<Rightarrow> Inl (KeyError ''gpu_name'')
      | Some gpu_name \<Rightarrow>
     (case map_of (offer_fields best) ''dph_total'' of
        None \<Rightarrow> Inl (KeyError ''dph_total'')
      | Some price \<Rightarrow> py_format_f price)))))))"

definition find_best_gpu :: "world \<Rightarrow> offer io" where
  "find_best_gpu w =
     io_bind (search_offers w tier1_query order_gpus_ram) (\<lambda>instances.
     io_bind (if instances = [] then search_offers w tier2_query order_gpus_ram
              else io_return instances) (\<lambda>instances.
     io_bind (if instances = [] then search_offers w tier3_query order_gpus_ram
              else io_return instances) (\<lambda>instances.
     io_bind (if instances = [] then search_offers w tier4_query order_ram
              else io_return instances) (\<lambda>instances.
     (case instances of
        [] \<Rightarrow> io_raise (RuntimeError ''No GPU instances found'')
      | best # _ \<Rightarrow> io_bind (io_lift (announce_offer best)) (\<lambda>_. io_return best))))))"

text \<open>
  \<^verbatim>\<open>create_instance\<close> returns \<^verbatim>\<open>result["new_contract"]\<close>, an \<^verbatim>\<open>int\<close> by its signature; a
  failing command and an answer without that key are both \<open>Inl\<close>.
\<close>

definition create_instance :: "world \<Rightarrow> int \<Rightarrow> int io" where
  "create_instance w oid = io_call (CreateInstance oid) (create_resp w oid)"

text \<open>
  \<^verbatim>\<open>destroy_instance\<close>: the progress line of line 133 is printed first, and the command is
  issued only if that \<^verbatim>\<open>print\<close> returned; the line of line 135 follows the command.
\<close>

definition destroy_instance :: "world \<Rightarrow> int \<Rightarrow> unit io" where
  "destroy_instance w contract_id =
     io_bind (io_lift (destroying_print w)) (\<lambda>_.
     io_bind (io_call (DestroyInstance contract_id) (destroy_resp w contract_id)) (\<lambda>_.
     io_lift (destroyed_print w)))"

text \<open>\<^verbatim>\<open>v == contract_id\<close> for an integer \<open>contract_id\<close>, and \<^verbatim>\<open>v == "running"\<close>.\<close>

fun py_eq_int :: "json \<Rightarrow> int \<Rightarrow> bool" where
  "py_eq_int (JInt i) c = (i = c)"
| "py_eq_int (JBool b) c = ((if b then 1 else 0) = c)"
| "py_eq_int (JFloat r) c = (r = of_int c)"
| "py_eq_int _ c = False"

fun py_eq_str :: "json \<Rightarrow> string \<Rightarrow> bool" where
  "py_eq_str (JStr s) t = (s = t)"
| "py_eq_str _ t = False"

text \<open>
  The \<^verbatim>\<open>for instance in instances\<close> loop of \<^verbatim>\<open>wait_for_instance\<close>: the first instance
  with the contract's id and status \<^verbatim>\<open>running\<close>; \<^verbatim>\<open>actual_status\<close> is read only when the
  id matches.
\<close>

fun scan_instances :: "int \<Rightarrow> dict list \<Rightarrow> error + dict option" where
  "scan_instances contract_id [] = Inr None"
| "scan_instances contract_id (instance # rest) =
     (case map_of instance ''id'' of
        None \<Rightarrow> Inl (KeyError ''id'')
      | Some i \<Rightarrow>
          if py_eq_int i contract_id then
            (case map_of instance ''actual_status'' of
               None \<Rightarrow> Inl (KeyError ''actual_status'')
             | Some s \<Rightarrow>
                 if py_eq_str s ''running'' then Inr (Some instance)
                 else scan_instances contract_id rest)
          else scan_instances contract_id rest)"

text \<open>
  The \<^verbatim>\<open>while True\<close> loop of \<^verbatim>\<open>wait_for_instance\<close>, from poll number \<open>n\<close>: one
  \<^verbatim>\<open>vastai show instances\<close> per round. The loop has no bound: the result is \<open>None\<close> when
  no poll ever fails or finds the instance running.
\<close>

partial_function (option) wait_for_instance ::
  "world \<Rightarrow> int \<Rightarrow> nat \<Rightarrow> dict io option" where
  "wait_for_instance w contract_id n =
     (case show_resp w n of
        Inl e \<Rightarrow> Some ([(ShowInstances, False)], Inl e)
      | Inr instances \<Rightarrow>
          (case scan_instances contract_id instances of
             Inl e \<Rightarrow> Some ([(ShowInstances, True)], Inl e)
           | Inr (Some instance) \<Rightarrow> Some ([(ShowInstances, True)], Inr instance)
           | Inr None \<Rightarrow>
               Option.bind (wait_for_instance w contract_id (Suc n))
                 (\<lambda>later. Some ((ShowInstances, True) # fst later, snd later))))"

declare wait_for_instance.simps [code]

section \<open>Packaging (\<^verbatim>\<open>SpeedRun.package_project\<close>)\<close>

fun entry_name :: "entry \<Rightarrow> string" where
  "entry_name (File n) = n"
| "entry_name (Dir n cs) = n"

text \<open>
  \<^verbatim>\<open>tar.add(item, arcname)\<close>: a file is one member; a directory is a member followed by
  the members of each of its entries, added under \<^verbatim>\<open>arcname/<entry name>\<close>. The entries of
  a directory are listed in the order the traversal visits them.
\<close>

fun tar_add :: "string \<Rightarrow> entry \<Rightarrow> string list" where
  "tar_add arcname (File n) = [arcname]"
| "tar_add arcname (Dir n cs) =
     arcname # concat (map (\<lambda>c. tar_add (arcname @ ''/'' @ entry_name c) c) cs)"

text \<open>The loop over \<^verbatim>\<open>project_path.iterdir()\<close>: the member names of the archive.\<close>

definition archive_members :: "entry list \<Rightarrow> string list" where
  "archive_members items =
     concat (map (\<lambda>item. tar_add (entry_name item) item)
               (filter (\<lambda>item. \<not> startswith_dot (entry_name item)) items))"

text \<open>
  \<^verbatim>\<open>NamedTemporaryFile(suffix='.tar.gz', delete=False)\<close> creates the file and gives its
  path, or raises and creates nothing; writing the archive (listing the project, adding the
  entries, reading the size) then returns or raises, the file staying where it is.
\<close>

definition package_project :: "world \<Rightarrow> string io" where
  "package_project w =
     io_bind (io_lift (mktemp_resp w)) (\<lambda>temp_path.
     io_bind (io_call (MkTemp temp_path) (Inr ())) (\<lambda>_.
     io_bind (io_call (TarWrite temp_path (archive_members (project_items w))) (tar_resp w)) (\<lambda>_.
     io_return temp_path)))"

section \<open>Connection resolution (\<^verbatim>\<open>run_on_instance\<close>, lines 163 to 184)\<close>

text \<open>\<^verbatim>\<open>k in v\<close> and \<^verbatim>\<open>v[k]\<close> for a string \<open>k\<close> and a parsed JSON value \<open>v\<close>.\<close>

fun py_contains :: "string \<Rightarrow> json \<Rightarrow> error + bool" where
  "py_contains k (JObj kvs) = Inr (map_of kvs k \<noteq> None)"
| "py_contains k (JList xs) = Inr (JStr k \<in> set xs)"
| "py_contains k (JStr s) = Inr (contains k s)"
| "py_contains k _ = Inl TypeError"

fun py_getitem :: "json \<Rightarrow> string \<Rightarrow> error + json" where
  "py_getitem (JObj kvs) k = (case map_of kvs k of None \<Rightarrow> Inl (KeyError k) | Some v \<Rightarrow> Inr v)"
| "py_getitem _ k = Inl TypeError"

text \<open>\<^verbatim>\<open>"ports" in instance_info and "22/tcp" in instance_info["ports"]\<close>.\<close>

definition ports_has_ssh :: "dict \<Rightarrow> error + bool" where
  "ports_has_ssh instance_info =
     (case map_of instance_info ''ports'' of
        None \<Rightarrow> Inr False
      | Some ports \<Rightarrow> py_contains ''22/tcp'' ports)"

text \<open>\<^verbatim>\<open>port_info[0]["HostPort"]\<close> for a non-empty list, \<^verbatim>\<open>port_info\<close> itself otherwise.\<close>

fun port_of_info :: "json \<Rightarrow> error + json" where
  "port_of_info (JList (first # rest)) = py_getitem first ''HostPort''"
| "port_of_info port_info = Inr port_info"

definition resolve_connection :: "dict \<Rightarrow> error + json \<times> json" where
  "resolve_connection instance_info =
     (case map_of instance_info ''public_ipaddr'' of
        None \<Rightarrow> Inl (KeyError ''public_ipaddr'')
      | Some host \<Rightarrow>
          (case (map_of instance_info ''ssh_host'', map_of instance_info ''ssh_port'') of
             (Some ssh_host, Some ssh_port) \<Rightarrow> Inr (ssh_host, ssh_port)
           | _ \<Rightarrow>
               (case ports_has_ssh instance_info of
                  Inl e \<Rightarrow> Inl e
                | Inr True \<Rightarrow>
                    (case map_of instance_info ''ports'' of
                       None \<Rightarrow> Inl (KeyError ''ports'')
                     | Some ports \<Rightarrow>
                         (case py_getitem ports ''22/tcp'' of
                            Inl e \<Rightarrow> Inl e
                          | Inr port_info \<Rightarrow>
                              (case port_of_info port_info of
                                 Inl e \<Rightarrow> Inl e
                               | Inr port \<Rightarrow> Inr (host, port))))
                | Inr False \<Rightarrow>
                    (case map_of instance_info ''direct_port_start'' of
                       Some port \<Rightarrow> Inr (host, port)
                     | None \<Rightarrow> Inr (host, JInt 22)))))"

section \<open>Deployment, execution and artifact collection (\<^verbatim>\<open>SpeedRun.run_on_instance\<close>)\<close>

definition exec :: "world \<Rightarrow> string \<Rightarrow> exec_result io" where
  "exec w cmd = io_call (Exec cmd) (exec_resp w cmd)"

text \<open>
  The project directory on the instance: the directory of the \<^verbatim>\<open>train.py\<close> that
  \<^verbatim>\<open>find\<close> printed, or \<^verbatim>\<open>/root/<project name>\<close> when it printed nothing.
\<close>

definition actual_project_dir :: "string \<Rightarrow> string \<Rightarrow> string" where
  "actual_project_dir found pname =
     (let train_py_path = strip found
      in if train_py_path \<noteq> [] then
           join_with ''/'' (butlast (split_on CHR ''/'' train_py_path))
         else ''/root/'' @ pname)"

definition patterns :: "string list" where
  "patterns = [''*.pt'', ''*.pth'', ''*.pkl'', ''*.h5'', ''*.hdf5'']"

definition find_command :: "string \<Rightarrow> string \<Rightarrow> string" where
  "find_command dir pattern =
     ''find '' @ dir @ '' -name '' @ [CHR 0x27] @ pattern @ [CHR 0x27] @ '' -type f''"

text \<open>\<^verbatim>\<open>[f.strip() for f in text.split('\n') if f.strip()]\<close>.\<close>

definition parse_lines :: "string \<Rightarrow> string list" where
  "parse_lines text = map strip (filter (\<lambda>f. strip f \<noteq> []) (split_on (CHR 0x0A) text))"

text \<open>The loop over the patterns: \<^verbatim>\<open>model_files\<close> is extended pattern after pattern.\<close>

fun find_models :: "world \<Rightarrow> string \<Rightarrow> string list \<Rightarrow> string list io" where
  "find_models w dir [] = io_return []"
| "find_models w dir (pattern # rest) =
     io_bind (exec w (find_command dir pattern)) (\<lambda>found.
     io_bind (find_models w dir rest) (\<lambda>files.
     io_return (parse_lines (out found) @ files)))"

definition results_dir_name :: "world \<Rightarrow> string" where
  "results_dir_name w = ''speedrun_results_'' @ str_int (py_int (clock_results w))"

text \<open>
  \<^verbatim>\<open>results_dir.mkdir(exist_ok=True)\<close>: an existing directory of that name is kept and
  nothing is raised.
\<close>

definition mkdir_exist_ok :: "world \<Rightarrow> string \<Rightarrow> unit io" where
  "mkdir_exist_ok w d = io_call (Mkdir d) (if dir_exists w d then Inr () else mkdir_resp w)"

definition local_file :: "string \<Rightarrow> string \<Rightarrow> string" where
  "local_file results_dir remote_file = path_join results_dir (path_name remote_file)"

fun download_all :: "world \<Rightarrow> string \<Rightarrow> string list \<Rightarrow> unit io" where
  "download_all w results_dir [] = io_return ()"
| "download_all w results_dir (remote_file # rest) =
     io_bind (io_call (ScpGet remote_file (local_file results_dir remote_file))
                (get_resp w remote_file (local_file results_dir remote_file))) (\<lambda>_.
     download_all w results_dir rest)"

text \<open>Lines 244 to 266 of \<^verbatim>\<open>run_on_instance\<close>.\<close>

definition collect_artifacts :: "world \<Rightarrow> string \<Rightarrow> unit io" where
  "collect_artifacts w dir =
     io_bind (find_models w dir patterns) (\<lambda>model_files.
     if model_files \<noteq> [] then
       io_bind (mkdir_exist_ok w (results_dir_name w)) (\<lambda>_.
       download_all w (results_dir_name w) model_files)
     else io_return ())"

text \<open>
  Lines 195 to 229 of \<^verbatim>\<open>run_on_instance\<close>: upload, extraction, the search for
  \<^verbatim>\<open>train.py\<close>, the optional \<^verbatim>\<open>pip install\<close>, and the training command, whose output is
  streamed to its end. The result is the project directory and what the training command
  returned.
\<close>

definition bootstrap :: "world \<Rightarrow> string \<Rightarrow> string \<Rightarrow> (string \<times> exec_result) io" where
  "bootstrap w package_path pname =
     io_bind (io_call (ScpPut package_path ''/root/project.tar.gz'') (put_resp w)) (\<lambda>_.
     io_bind (exec w ''cd /root && tar -xzf project.tar.gz && rm project.tar.gz'') (\<lambda>_.
     io_bind (exec w ''ls -la /root/'') (\<lambda>_.
     io_bind (exec w ''find /root -name 'train.py' -type f'') (\<lambda>found.
     io_bind (exec w (''ls '' @ actual_project_dir (out found) pname @ ''/requirements.txt''))
       (\<lambda>requirements.
     io_bind (if err requirements = [] then
                io_bind (exec w (''cd '' @ actual_project_dir (out found) pname @
                           '' && pip install -r requirements.txt'')) (\<lambda>_. io_return ())
              else io_return ()) (\<lambda>_.
     io_bind (exec w (''cd '' @ actual_project_dir (out found) pname @ '' && python train.py''))
       (\<lambda>training.
     io_return (actual_project_dir (out found) pname, training))))))))"

text \<open>
  The body of the \<^verbatim>\<open>try\<close> of \<^verbatim>\<open>run_on_instance\<close>, lines 195 to 266: after the training
  command, a non-zero exit status raises, and only otherwise are the artifacts collected.
\<close>

definition remote_phase :: "world \<Rightarrow> string \<Rightarrow> string \<Rightarrow> unit io" where
  "remote_phase w package_path pname =
     io_bind (bootstrap w package_path pname) (\<lambda>started.
     if status (snd started) \<noteq> 0 then io_raise (RuntimeError ''Training failed'')
     else collect_artifacts w (fst started))"

text \<open>
  \<^verbatim>\<open>run_on_instance\<close>: the connection is resolved and opened outside the \<^verbatim>\<open>try\<close>; once it
  is open, \<^verbatim>\<open>ssh.close()\<close> runs in the \<^verbatim>\<open>finally\<close>.
\<close>

definition run_on_instance :: "world \<Rightarrow> dict \<Rightarrow> string \<Rightarrow> string \<Rightarrow> unit io" where
  "run_on_instance w instance_info package_path pname =
     io_bind (io_lift (resolve_connection instance_info)) (\<lambda>hp.
     io_bind (io_call (SshConnect (fst hp) (snd hp)) (connect_resp w)) (\<lambda>_.
     try_finally (remote_phase w package_path pname) (io_call SshClose (Inr ()))))"

section \<open>The controller (\<^verbatim>\<open>SpeedRun.run\<close>)\<close>

text \<open>The hourly price of an offer whose \<^verbatim>\<open>dph_total\<close> is a number.\<close>

definition dph_total :: "offer \<Rightarrow> real" where
  "dph_total instance =
     (case map_of (offer_fields instance) ''dph_total'' of
        None \<Rightarrow> 0
      | Some price \<Rightarrow> (case py_float price of None \<Rightarrow> 0 | Some x \<Rightarrow> x))"

text \<open>
  Lines 290 and 291: \<^verbatim>\<open>duration_hours * instance["dph_total"]\<close>, a float times the entry
  of the dict.
\<close>

definition cost :: "world \<Rightarrow> offer \<Rightarrow> error + real" where
  "cost w instance =
     (case map_of (offer_fields instance) ''dph_total'' of
        None \<Rightarrow> Inl (KeyError ''dph_total'')
      | Some price \<Rightarrow>
          (case py_float price of
             None \<Rightarrow> Inl TypeError
           | Some x \<Rightarrow> Inr (((clock_cost w - clock_start w) / 3600) * x)))"

text \<open>Lines 283 to 295: packaging, then the inner \<^verbatim>\<open>try\<close> with its \<^verbatim>\<open>finally\<close>.\<close>

definition package_and_run :: "world \<Rightarrow> offer \<Rightarrow> dict \<Rightarrow> unit io" where
  "package_and_run w instance instance_info =
     io_bind (package_project w) (\<lambda>package_path.
     try_finally
       (io_bind (run_on_instance w instance_info package_path (project_name w)) (\<lambda>_.
        io_bind (io_lift (cost w instance)) (\<lambda>total.
        io_call (PrintCost total) (Inr ()))))
       (io_call (Unlink package_path) (unlink_resp w package_path)))"

text \<open>The outer \<^verbatim>\<open>finally\<close>: \<^verbatim>\<open>if contract_id: destroy_instance(contract_id)\<close>.\<close>

definition cleanup :: "world \<Rightarrow> int \<Rightarrow> unit io" where
  "cleanup w contract_id =
     (if contract_id \<noteq> 0 then destroy_instance w contract_id else io_return ())"

definition io_after :: "trace \<Rightarrow> 'a io \<Rightarrow> 'a io" where
  "io_after t m = (t @ fst m, snd m)"

text \<open>
  \<^verbatim>\<open>run\<close>. While \<^verbatim>\<open>contract_id\<close> is still \<^verbatim>\<open>None\<close> (the search or the creation raised) the
  outer \<^verbatim>\<open>finally\<close> does nothing; from the assignment on it is \<open>cleanup\<close>. The result is
  \<open>None\<close> when the wait never ends.
\<close>

definition run :: "world \<Rightarrow> unit io option" where
  "run w =
     (case find_best_gpu w of
        (t1, Inl e) \<Rightarrow> Some (t1, Inl e)
      | (t1, Inr instance) \<Rightarrow>
          (case create_instance w (offer_id instance) of
             (t2, Inl e) \<Rightarrow> Some (t1 @ t2, Inl e)
           | (t2, Inr contract_id) \<Rightarrow>
               (case wait_for_instance w contract_id 0 of
                  None \<Rightarrow> None
                | Some waited \<Rightarrow>
                    Some (io_after (t1 @ t2)
                            (try_finally
                               (io_bind waited (package_and_run w instance))
                               (cleanup w contract_id))))))"

section \<open>Reading a trace\<close>

fun is_destroy :: "event \<Rightarrow> bool" where
  "is_destroy (DestroyInstance c) = True"
| "is_destroy _ = False"

fun is_cost :: "event \<Rightarrow> bool" where
  "is_cost (PrintCost c) = True"
| "is_cost _ = False"

text \<open>The calls of a trace that destroy an instance, and those that print a cost.\<close>

definition destroy_calls :: "trace \<Rightarrow> trace" where
  "destroy_calls t = filter (\<lambda>c. is_destroy (fst c)) t"

definition printed_costs :: "trace \<Rightarrow> trace" where
  "printed_costs t = filter (\<lambda>c. is_cost (fst c)) t"

text \<open>A computation makes no call of the kind \<open>P\<close>.\<close>

definition silent :: "(event \<Rightarrow> bool) \<Rightarrow> 'a io \<Rightarrow> bool" where
  "silent P m \<longleftrightarrow> filter (\<lambda>c. P (fst c)) (fst m) = []"

text \<open>
  The local files a trace leaves behind, from the files \<open>fs\<close> before it: each path with
  where its content came from.
\<close>

datatype origin = TempArchive | Downloaded string

fun apply_event :: "event \<times> bool \<Rightarrow> (string \<rightharpoonup> origin) \<Rightarrow> (string \<rightharpoonup> origin)" where
  "apply_event (MkTemp p, True) fs = fs(p \<mapsto> TempArchive)"
| "apply_event (Unlink p, True) fs = fs(p := None)"
| "apply_event (ScpGet r l, True) fs = fs(l \<mapsto> Downloaded r)"
| "apply_event _ fs = fs"

definition files_after :: "trace \<Rightarrow> (string \<rightharpoonup> origin) \<Rightarrow> (string \<rightharpoonup> origin)" where
  "files_after t fs = fold apply_event t fs"

section \<open>Scenarios\<close>

text \<open>
  Concrete worlds on which the theorems below are exercised. In \<open>world_ok\<close> the first
  tier offers one machine with eight GPUs at 5 dollars an hour, the instance is listed as
  running at the second poll, training exits with status 0 and leaves \<^verbatim>\<open>model.pt\<close> and
  \<^verbatim>\<open>weights.pth\<close>; the run takes one hour.
\<close>

definition offer8 :: offer where
  "offer8 =
     \<lparr>offer_id = 7,
      offer_fields =
        [(''num_gpus'', JInt 8), (''gpu_ram'', JInt 24576), (''gpu_total_ram'', JInt 196608),
         (''gpu_name'', JStr ''RTX 4090''), (''dph_total'', JFloat 5),
         (''reliability'', JFloat 0.99)]\<rparr>"

definition instance_4242 :: dict where
  "instance_4242 =
     [(''id'', JInt 4242), (''actual_status'', JStr ''running''),
      (''public_ipaddr'', JStr ''10.0.0.1''),
      (''ssh_host'', JStr ''ssh4.vast.ai''), (''ssh_port'', JInt 2222)]"

definition demo_project :: "entry list" where
  "demo_project =
     [File ''train.py'', Dir ''src'' [File ''.env'', File ''model.py''], File ''.gitignore'',
      Dir ''.git'' [File ''config'']]"

definition remote_ok :: "string \<Rightarrow> error + exec_result" where
  "remote_ok cmd =
     (if cmd = ''find /root -name 'train.py' -type f'' then
        Inr \<lparr>out = ''/root/demo/train.py\<newline>'', err = [], status = 0\<rparr>
      else if cmd = ''ls /root/demo/requirements.txt'' then
        Inr \<lparr>out = [], err = ''ls: cannot access'', status = 2\<rparr>
      else if cmd = ''find /root/demo -name '*.pt' -type f'' then
        Inr \<lparr>out = ''/root/demo/models/model.pt\<newline>'', err = [], status = 0\<rparr>
      else if cmd = ''find /root/demo -name '*.pth' -type f'' then
        Inr \<lparr>out = ''/root/demo/models/weights.pth\<newline>'', err = [], status = 0\<rparr>
      else Inr \<lparr>out = [], err = [], status = 0\<rparr>)"

definition world_ok :: world where
  "world_ok =
     \<lparr>clock_start = 1000, clock_cost = 4600, clock_results = 1700000000,
      search_resp = (\<lambda>query ord. if query = tier1_query then Inr [offer8] else Inr []),
      create_resp = (\<lambda>oid. Inr 4242),
      show_resp = (\<lambda>n. if n = 0 then Inr [] else Inr [instance_4242]),
      destroy_resp = (\<lambda>c. Inr ()),
      destroying_print = Inr (),
      destroyed_print = Inr (),
      project_items = demo_project,
      project_name = ''demo'',
      mktemp_resp = Inr ''/tmp/tmpk3v9.tar.gz'',
      tar_resp = Inr (),
      unlink_resp = (\<lambda>p. Inr ()),
      connect_resp = Inr (),
      put_resp = Inr (),
      exec_resp = remote_ok,
      dir_exists = (\<lambda>d. False),
      mkdir_resp = Inr (),
      get_resp = (\<lambda>r l. Inr ())\<rparr>"

text \<open>The same machine, advertised without its price.\<close>

definition offer_no_price :: offer where
  "offer_no_price =
     \<lparr>offer_id = 7,
      offer_fields =
        [(''num_gpus'', JInt 8), (''gpu_ram'', JInt 24576), (''gpu_total_ram'', JInt 196608),
         (''gpu_name'', JStr ''RTX 4090'')]\<rparr>"

text \<open>One offer appears, at the query given and at no other.\<close>

definition world_tier' :: "string \<Rightarrow> offer \<Rightarrow> world" where
  "world_tier' tier b =
     world_ok\<lparr>search_resp := (\<lambda>query ord. if query = tier then Inr [b] else Inr [])\<rparr>"

text \<open>The offers appear at the second, third or fourth tier only, or at none.\<close>

definition world_tier :: "string \<Rightarrow> world" where
  "world_tier tier = world_tier' tier offer8"

text \<open>The backend answers the creation with contract id 0.\<close>

definition world_zero :: world where
  "world_zero =
     world_ok\<lparr>create_resp := (\<lambda>oid. Inr 0),
              show_resp := (\<lambda>n. Inr [(''id'', JInt 0) # tl instance_4242])\<rparr>"

text \<open>Training exits with status 1.\<close>

definition remote_failing :: "string \<Rightarrow> error + exec_result" where
  "remote_failing cmd =
     (if cmd = ''cd /root/demo && python train.py'' then
        Inr \<lparr>out = ''Traceback'', err = [], status = 1\<rparr>
      else remote_ok cmd)"

definition world_job_fails :: world where
  "world_job_fails = world_ok\<lparr>exec_resp := remote_failing\<rparr>"

definition world_zero_job_fails :: world where
  "world_zero_job_fails = world_zero\<lparr>exec_resp := remote_failing\<rparr>"

text \<open>The destroy command fails after a run that went well.\<close>

definition world_destroy_fails :: world where
  "world_destroy_fails =
     world_ok\<lparr>destroy_resp := (\<lambda>c. Inl (RuntimeError ''vastai command failed: ''))\<rparr>"

text \<open>Training exits with status 1 and the destroy command fails as well.\<close>

definition world_both_fail :: world where
  "world_both_fail =
     world_job_fails\<lparr>destroy_resp := (\<lambda>c. Inl (RuntimeError ''vastai command failed: ''))\<rparr>"

text \<open>Standard output is gone by the time the instance is to be destroyed.\<close>

definition world_mute :: world where
  "world_mute = world_ok\<lparr>destroying_print := Inl (External ''BrokenPipeError'')\<rparr>"

text \<open>An entry of the project cannot be read while the archive is written.\<close>

definition world_tar_fails :: world where
  "world_tar_fails = world_ok\<lparr>tar_resp := Inl (External ''PermissionError'')\<rparr>"

text \<open>
  The project holds \<^verbatim>\<open>a.pt\<close> and a file whose name is \<^verbatim>\<open>a.pt\<close>, a line feed and
  \<^verbatim>\<open>b.pth\<close>, so the search for \<^verbatim>\<open>*.pth\<close> prints the path of \<^verbatim>\<open>a.pt\<close> on a line of its
  own; and a results directory of this second exists already.
\<close>

definition remote_dup :: "string \<Rightarrow> error + exec_result" where
  "remote_dup cmd =
     (if cmd = ''find /root/demo -name '*.pt' -type f'' then
        Inr \<lparr>out = ''/root/demo/a.pt\<newline>'', err = [], status = 0\<rparr>
      else if cmd = ''find /root/demo -name '*.pth' -type f'' then
        Inr \<lparr>out = ''/root/demo/a.pt\<newline>b.pth\<newline>'',
             err = [], status = 0\<rparr>
      else Inr \<lparr>out = [], err = [], status = 0\<rparr>)"

definition world_dup :: world where
  "world_dup = world_ok\<lparr>exec_resp := remote_dup, dir_exists := (\<lambda>d. True)\<rparr>"

text \<open>What the five searches of \<open>world_ok\<close> print, by pattern.\<close>

definition found_demo :: "string \<Rightarrow> exec_result" where
  "found_demo pattern =
     (if pattern = ''*.pt'' then \<lparr>out = ''/root/demo/models/model.pt\<newline>'', err = [], status = 0\<rparr>
      else if pattern = ''*.pth'' then
        \<lparr>out = ''/root/demo/models/weights.pth\<newline>'', err = [], status = 0\<rparr>
      else \<lparr>out = [], err = [], status = 0\<rparr>)"

text \<open>The local files a run leaves at a path; \<open>None\<close> when the run does not end.\<close>

definition left_behind :: "world \<Rightarrow> string \<Rightarrow> origin option option" where
  "left_behind w p =
     (case run w of None \<Rightarrow> None | Some m \<Rightarrow> Some (files_after (fst m) Map.empty p))"

text \<open>
  The destroy calls of a run, its printed costs, and its outcome; \<open>None\<close> when the run
  does not end.
\<close>

definition destroyed :: "world \<Rightarrow> trace option" where
  "destroyed w = (case run w of None \<Rightarrow> None | Some m \<Rightarrow> Some (destroy_calls (fst m)))"

definition costs_printed :: "world \<Rightarrow> trace option" where
  "costs_printed w = (case run w of None \<Rightarrow> None | Some m \<Rightarrow> Some (printed_costs (fst m)))"

definition run_outcome :: "world \<Rightarrow> (error + unit) option" where
  "run_outcome w = (case run w of None \<Rightarrow> None | Some m \<Rightarrow> Some (snd m))"

section \<open>Rules for sequencing\<close>

lemma io_bind_Inl [simp]: "io_bind (t, Inl e) f = (t, Inl e)"
  by (simp add: io_bind_def)

lemma io_bind_Inr [simp]: "io_bind (t, Inr x) f = (t @ fst (f x), snd (f x))"
  by (simp add: io_bind_def)

lemma io_call_Inl [simp]: "io_call ev (Inl e) = ([(ev, False)], Inl e)"
  by (simp add: io_call_def)

lemma io_call_Inr [simp]: "io_call ev (Inr x) = ([(ev, True)], Inr x)"
  by (simp add: io_call_def)

text \<open>Calls of a kind that no step makes are made by no composition of the steps.\<close>

lemma silent_return: "silent P (io_return x)"
  by (simp add: silent_def io_return_def)

lemma silent_raise: "silent P (io_raise e)"
  by (simp add: silent_def io_raise_def)

lemma silent_lift: "silent P (io_lift r)"
  by (simp add: silent_def io_lift_def)

lemma silent_call: "\<not> P ev \<Longrightarrow> silent P (io_call ev r)"
  by (simp add: silent_def io_call_def)

lemma silent_bind: "silent P m \<Longrightarrow> (\<And>x. silent P (f x)) \<Longrightarrow> silent P (io_bind m f)"
  by (simp add: silent_def io_bind_def split: sum.splits)

lemma silent_try_finally: "silent P body \<Longrightarrow> silent P fin \<Longrightarrow> silent P (try_finally body fin)"
  by (simp add: silent_def try_finally_def)

lemma silent_if: "silent P a \<Longrightarrow> silent P b \<Longrightarrow> silent P (if c then a else b)"
  by simp

lemmas silent_rules =
  silent_return silent_raise silent_lift silent_call silent_bind silent_try_finally silent_if

lemma silent_find_best_gpu:
  "(\<And>q ord. \<not> P (Search q ord)) \<Longrightarrow> silent P (find_best_gpu w)"
  unfolding find_best_gpu_def search_offers_def
  by (intro silent_rules) (auto split: list.splits intro: silent_rules)

lemma silent_exec: "(\<And>cmd. \<not> P (Exec cmd)) \<Longrightarrow> silent P (exec w cmd)"
  by (simp add: exec_def silent_call)

lemma silent_find_models:
  "(\<And>cmd. \<not> P (Exec cmd)) \<Longrightarrow> silent P (find_models w dir ps)"
  by (induction ps) (auto intro!: silent_rules silent_exec)

lemma silent_bootstrap:
  "(\<And>cmd. \<not> P (Exec cmd)) \<Longrightarrow> (\<And>a b. \<not> P (ScpPut a b)) \<Longrightarrow>
   silent P (bootstrap w p n)"
  unfolding bootstrap_def
  by (intro silent_rules silent_exec) auto

lemma silent_download_all:
  "(\<And>r l. \<not> P (ScpGet r l)) \<Longrightarrow> silent P (download_all w d rs)"
  by (induction rs) (auto intro!: silent_rules)

lemma silent_collect:
  "(\<And>cmd. \<not> P (Exec cmd)) \<Longrightarrow> (\<And>r l. \<not> P (ScpGet r l)) \<Longrightarrow> (\<And>d. \<not> P (Mkdir d)) \<Longrightarrow>
   silent P (collect_artifacts w dir)"
  unfolding collect_artifacts_def mkdir_exist_ok_def
  by (intro silent_rules silent_find_models silent_download_all) auto

lemma silent_remote_phase:
  "(\<And>cmd. \<not> P (Exec cmd)) \<Longrightarrow> (\<And>a b. \<not> P (ScpPut a b)) \<Longrightarrow>
   (\<And>r l. \<not> P (ScpGet r l)) \<Longrightarrow> (\<And>d. \<not> P (Mkdir d)) \<Longrightarrow>
   silent P (remote_phase w p n)"
  unfolding remote_phase_def
  by (intro silent_rules silent_bootstrap silent_collect) auto

lemma silent_run_on_instance:
  "(\<And>cmd. \<not> P (Exec cmd)) \<Longrightarrow> (\<And>a b. \<not> P (ScpPut a b)) \<Longrightarrow>
   (\<And>r l. \<not> P (ScpGet r l)) \<Longrightarrow> (\<And>d. \<not> P (Mkdir d)) \<Longrightarrow>
   (\<And>h p. \<not> P (SshConnect h p)) \<Longrightarrow> \<not> P SshClose \<Longrightarrow>
   silent P (run_on_instance w info p n)"
  unfolding run_on_instance_def
  by (intro silent_rules silent_remote_phase) auto

lemma silent_package_project:
  "(\<And>p. \<not> P (MkTemp p)) \<Longrightarrow> (\<And>p ms. \<not> P (TarWrite p ms)) \<Longrightarrow>
   silent P (package_project w)"
  unfolding package_project_def
  by (intro silent_rules) auto

lemma silent_package_and_run_destroy:
  "silent is_destroy (package_and_run w instance info)"
  unfolding package_and_run_def
  by (intro silent_rules silent_package_project silent_run_on_instance) auto

lemma silent_wait:
  assumes "wait_for_instance w c n = Some m" "\<not> P ShowInstances"
  shows "silent P m"
proof (rule wait_for_instance.raw_induct [where P = "\<lambda>w c n m. silent P m"])
  show "wait_for_instance w c n = Some m" by fact
next
  fix wait w c n m
  assume IH: "\<And>w c n m. wait w c n = Some m \<Longrightarrow> silent P m"
    and eq: "(case show_resp w n of
        Inl e \<Rightarrow> Some ([(ShowInstances, False)], Inl e)
      | Inr instances \<Rightarrow>
          (case scan_instances c instances of
             Inl e \<Rightarrow> Some ([(ShowInstances, True)], Inl e)
           | Inr None \<Rightarrow>
               Option.bind (wait w c (Suc n))
                 (\<lambda>later. Some ((ShowInstances, True) # fst later, snd later))
           | Inr (Some instance) \<Rightarrow> Some ([(ShowInstances, True)], Inr instance))) = Some m"
  show "silent P m"
  proof (cases "show_resp w n")
    case (Inl e)
    with eq assms(2) show ?thesis by (auto simp: silent_def)
  next
    case (Inr instances)
    show ?thesis
    proof (cases "scan_instances c instances")
      case (Inl e)
      with eq Inr assms(2) show ?thesis by (auto simp: silent_def)
    next
      case scanned: (Inr found)
      show ?thesis
      proof (cases found)
        case None
        with eq Inr scanned obtain later where
          "wait w c (Suc n) = Some later" "m = ((ShowInstances, True) # fst later, snd later)"
          by (auto split: bind_splits)
        with IH [of w c "Suc n" later] assms(2) show ?thesis by (simp add: silent_def)
      next
        case (Some inst)
        with eq Inr scanned assms(2) show ?thesis by (auto simp: silent_def)
      qed
    qed
  qed
qed

section \<open>The archive and dot entries\<close>

lemma tar_add_prefix: "m \<in> set (tar_add arc e) \<Longrightarrow> \<exists>rest. m = arc @ rest"
proof (induction arc e arbitrary: m rule: tar_add.induct)
  case (1 arcname n)
  then show ?case by simp
next
  case (2 arcname n cs)
  then show ?case by fastforce
qed

lemma tar_add_self: "arc \<in> set (tar_add arc e)"
  by (cases e) simp_all

lemma startswith_dot_append: "n \<noteq> [] \<Longrightarrow> startswith_dot (n @ rest) = startswith_dot n"
  by (cases n) (simp_all add: startswith_dot_def)

lemma tar_add_no_dot:
  assumes "m \<in> set (tar_add (entry_name item) item)" "\<not> startswith_dot (entry_name item)"
  shows "\<not> startswith_dot m"
proof (cases item)
  case (File n)
  with assms show ?thesis by simp
next
  case (Dir n cs)
  show ?thesis
  proof (cases "n = []")
    case True
    with assms Dir have "m = [] \<or> (\<exists>rest. m = ''/'' @ rest)"
      by (auto dest!: tar_add_prefix)
    then show ?thesis by (auto simp: startswith_dot_def)
  next
    case False
    from assms(1) obtain rest where "m = n @ rest"
      using tar_add_prefix Dir by fastforce
    with False assms(2) Dir show ?thesis by (simp add: startswith_dot_append)
  qed
qed

lemma archive_membersI:
  "item \<in> set items \<Longrightarrow> \<not> startswith_dot (entry_name item) \<Longrightarrow>
   m \<in> set (tar_add (entry_name item) item) \<Longrightarrow> m \<in> set (archive_members items)"
  by (auto simp: archive_members_def)

lemma tar_add_child:
  "c \<in> set cs \<Longrightarrow> n @ ''/'' @ entry_name c \<in> set (tar_add n (Dir n cs))"
  using tar_add_self by fastforce

text \<open>
  Claim C9, as the code has it. \<^verbatim>\<open>package_project\<close> tests the name of each entry of the
  project directory itself, and of no entry below: no member path of the archive starts with
  a dot, so an entry of the project directory whose name starts with a dot is left out with
  all it holds; an entry that is kept is archived whole, and an entry of a kept directory
  is a member whatever its name, also when that name starts with a dot.
\<close>

theorem archive_top_level_dot:
  "(\<forall>m \<in> set (archive_members items). \<not> startswith_dot m) \<and>
   (\<forall>item \<in> set items. \<not> startswith_dot (entry_name item) \<longrightarrow>
      set (tar_add (entry_name item) item) \<subseteq> set (archive_members items)) \<and>
   (\<forall>n cs c. Dir n cs \<in> set items \<and> \<not> startswith_dot n \<and> c \<in> set cs \<longrightarrow>
      n @ ''/'' @ entry_name c \<in> set (archive_members items))"
proof (intro conjI ballI allI impI)
  fix m assume "m \<in> set (archive_members items)"
  then obtain item where "item \<in> set items" "\<not> startswith_dot (entry_name item)"
    "m \<in> set (tar_add (entry_name item) item)"
    by (auto simp: archive_members_def)
  then show "\<not> startswith_dot m" using tar_add_no_dot by blast
next
  fix item assume "item \<in> set items" "\<not> startswith_dot (entry_name item)"
  then show "set (tar_add (entry_name item) item) \<subseteq> set (archive_members items)"
    using archive_membersI by blast
next
  fix n cs c assume a: "Dir n cs \<in> set items \<and> \<not> startswith_dot n \<and> c \<in> set cs"
  then have "n @ ''/'' @ entry_name c \<in> set (tar_add (entry_name (Dir n cs)) (Dir n cs))"
    using tar_add_child [of c cs n] by simp
  with a show "n @ ''/'' @ entry_name c \<in> set (archive_members items)"
    using archive_membersI [of "Dir n cs" items] by simp
qed

text \<open>
  Claim C9 as stated fails: \<^verbatim>\<open>.env\<close> inside the directory \<^verbatim>\<open>src\<close> starts with a dot and
  is a member of the archive.
\<close>

theorem nested_dotfile_archived:
  "startswith_dot ''.env'' \<and>
   archive_members [Dir ''src'' [File ''.env'']] = [''src'', ''src/.env'']"
  by (simp add: archive_members_def startswith_dot_def)

text \<open>
  The demo project: \<^verbatim>\<open>src/.env\<close> is archived, \<^verbatim>\<open>.gitignore\<close> and \<^verbatim>\<open>.git/config\<close> are
  not, and \<^verbatim>\<open>src\<close> is archived whole.
\<close>

theorem archive_top_level_dot_witness:
  "''src/.env'' \<in> set (archive_members demo_project) \<and>
   \<not> startswith_dot ''src/.env'' \<and>
   ''.gitignore'' \<notin> set (archive_members demo_project) \<and>
   ''.git/config'' \<notin> set (archive_members demo_project) \<and>
   set (tar_add ''src'' (Dir ''src'' [File ''.env'', File ''model.py'']))
     \<subseteq> set (archive_members demo_project)"
  using archive_top_level_dot [of demo_project]
  by (auto simp: demo_project_def startswith_dot_def)

section \<open>Offer selection\<close>

lemma io_bind_lift:
  "io_bind (io_lift r) f = (case r of Inl e \<Rightarrow> ([], Inl e) | Inr x \<Rightarrow> f x)"
  by (simp add: io_bind_def io_lift_def split: sum.splits)

lemma select_first:
  "io_bind (io_lift (announce_offer b)) (\<lambda>_. io_return b) =
     ([], case announce_offer b of Inl e \<Rightarrow> Inl e | Inr u \<Rightarrow> Inr b)"
  by (simp add: io_bind_lift io_return_def split: sum.splits)

lemma find_best_gpu_tier1:
  "search_resp w tier1_query order_gpus_ram = Inr (b # bs) \<Longrightarrow>
   find_best_gpu w =
     ([(Search tier1_query order_gpus_ram, True)],
      case announce_offer b of Inl e \<Rightarrow> Inl e | Inr u \<Rightarrow> Inr b)"
  by (simp add: find_best_gpu_def search_offers_def select_first io_return_def [of "[]"] io_return_def [of "_ # _"])

lemma find_best_gpu_tier2:
  "search_resp w tier1_query order_gpus_ram = Inr [] \<Longrightarrow>
   search_resp w tier2_query order_gpus_ram = Inr (b # bs) \<Longrightarrow>
   find_best_gpu w =
     ([(Search tier1_query order_gpus_ram, True), (Search tier2_query order_gpus_ram, True)],
      case announce_offer b of Inl e \<Rightarrow> Inl e | Inr u \<Rightarrow> Inr b)"
  by (simp add: find_best_gpu_def search_offers_def select_first io_return_def [of "[]"] io_return_def [of "_ # _"])

lemma find_best_gpu_tier3:
  "search_resp w tier1_query order_gpus_ram = Inr [] \<Longrightarrow>
   search_resp w tier2_query order_gpus_ram = Inr [] \<Longrightarrow>
   search_resp w tier3_query order_gpus_ram = Inr (b # bs) \<Longrightarrow>
   find_best_gpu w =
     ([(Search tier1_query order_gpus_ram, True), (Search tier2_query order_gpus_ram, True),
       (Search tier3_query order_gpus_ram, True)],
      case announce_offer b of Inl e \<Rightarrow> Inl e | Inr u \<Rightarrow> Inr b)"
  by (simp add: find_best_gpu_def search_offers_def select_first io_return_def [of "[]"] io_return_def [of "_ # _"])

lemma find_best_gpu_tier4:
  "search_resp w tier1_query order_gpus_ram = Inr [] \<Longrightarrow>
   search_resp w tier2_query order_gpus_ram = Inr [] \<Longrightarrow>
   search_resp w tier3_query order_gpus_ram = Inr [] \<Longrightarrow>
   search_resp w tier4_query order_ram = Inr (b # bs) \<Longrightarrow>
   find_best_gpu w =
     ([(Search tier1_query order_gpus_ram, True), (Search tier2_query order_gpus_ram, True),
       (Search tier3_query order_gpus_ram, True), (Search tier4_query order_ram, True)],
      case announce_offer b of Inl e \<Rightarrow> Inl e | Inr u \<Rightarrow> Inr b)"
  by (simp add: find_best_gpu_def search_offers_def select_first io_return_def [of "[]"] io_return_def [of "_ # _"])

lemma find_best_gpu_none:
  "search_resp w tier1_query order_gpus_ram = Inr [] \<Longrightarrow>
   search_resp w tier2_query order_gpus_ram = Inr [] \<Longrightarrow>
   search_resp w tier3_query order_gpus_ram = Inr [] \<Longrightarrow>
   search_resp w tier4_query order_ram = Inr [] \<Longrightarrow>
   find_best_gpu w =
     ([(Search tier1_query order_gpus_ram, True), (Search tier2_query order_gpus_ram, True),
       (Search tier3_query order_gpus_ram, True), (Search tier4_query order_ram, True)],
      Inl (RuntimeError ''No GPU instances found''))"
  by (simp add: find_best_gpu_def search_offers_def io_return_def io_raise_def)

text \<open>An offer with the attributes lines 89 to 93 read, numbers where they compute.\<close>

lemma announce_offer_ok:
  "map_of (offer_fields b) ''gpu_ram'' = Some ram \<Longrightarrow> py_float ram = Some x \<Longrightarrow>
   map_of (offer_fields b) ''gpu_total_ram'' = Some tot \<Longrightarrow> py_float tot = Some y \<Longrightarrow>
   map_of (offer_fields b) ''num_gpus'' = Some n \<Longrightarrow>
   map_of (offer_fields b) ''gpu_name'' = Some name \<Longrightarrow>
   map_of (offer_fields b) ''dph_total'' = Some price \<Longrightarrow> py_float price = Some z \<Longrightarrow>
   announce_offer b = Inr ()"
  by (cases price) (simp_all add: announce_offer_def py_div_1024_def)

text \<open>What a selected offer is known to have: a price that is a number.\<close>

lemma announce_offer_price:
  "announce_offer b = Inr () \<Longrightarrow>
   \<exists>price x. map_of (offer_fields b) ''dph_total'' = Some price \<and> py_float price = Some x"
  by (cases "the (map_of (offer_fields b) ''dph_total'')")
     (auto simp: announce_offer_def split: option.splits sum.splits)

lemma find_best_gpu_announced:
  "find_best_gpu w = (t, Inr b) \<Longrightarrow> announce_offer b = Inr ()"
  by (auto simp: find_best_gpu_def io_bind_def io_lift_def io_return_def io_raise_def
           split: sum.splits list.splits if_splits)

lemma cost_selected:
  "announce_offer b = Inr () \<Longrightarrow>
   cost w b = Inr (((clock_cost w - clock_start w) / 3600) * dph_total b)"
  using announce_offer_price [of b] by (auto simp: cost_def dph_total_def)

text \<open>
  Claim C4. \<^verbatim>\<open>find_best_gpu\<close> asks tier 1 (at least 4 GPUs, under 10 dollars an hour),
  then tier 2 (at least 4 GPUs), tier 3 (at least 2 GPUs) and tier 4 (any number of GPUs,
  ordered by total GPU memory), each only when all the tiers before it answered with no
  offer. When tier \<open>k\<close> is the first to answer with an offer, the searches made are those
  of tiers 1 to \<open>k\<close> and no other, and the first offer of that answer is the one taken: it
  is returned once its line has been printed, which an offer with the attributes of the
  spec (memory sizes and price that are numbers, a GPU count and a GPU name) allows, and
  the exception of that line is the outcome otherwise. When all four answer with none, the
  selection fails with the \<open>RuntimeError\<close> \<^verbatim>\<open>No GPU instances found\<close> (the spec's
  \<^verbatim>\<open>NoResourceAvailable\<close>), and the whole run consists of the four searches: no instance
  is created and none is destroyed.
\<close>

theorem find_best_gpu_fallback:
  "(search_resp w ''rentable=true reliability>0.95 num_gpus>=4 dph_total<10.0''
      ''num_gpus-,gpu_total_ram-'' = Inr (b # bs) \<longrightarrow>
      find_best_gpu w =
        ([(Search ''rentable=true reliability>0.95 num_gpus>=4 dph_total<10.0''
             ''num_gpus-,gpu_total_ram-'', True)],
         (case announce_offer b of Inl e \<Rightarrow> Inl e | Inr u \<Rightarrow> Inr b))) \<and>
   (search_resp w ''rentable=true reliability>0.95 num_gpus>=4 dph_total<10.0''
      ''num_gpus-,gpu_total_ram-'' = Inr [] \<and>
    search_resp w ''rentable=true reliability>0.95 num_gpus>=4'' ''num_gpus-,gpu_total_ram-'' = Inr (b # bs) \<longrightarrow>
      find_best_gpu w =
        ([(Search ''rentable=true reliability>0.95 num_gpus>=4 dph_total<10.0''
             ''num_gpus-,gpu_total_ram-'', True),
           (Search ''rentable=true reliability>0.95 num_gpus>=4'' ''num_gpus-,gpu_total_ram-'', True)],
         (case announce_offer b of Inl e \<Rightarrow> Inl e | Inr u \<Rightarrow> Inr b))) \<and>
   (search_resp w ''rentable=true reliability>0.95 num_gpus>=4 dph_total<10.0''
      ''num_gpus-,gpu_total_ram-'' = Inr [] \<and>
    search_resp w ''rentable=true reliability>0.95 num_gpus>=4'' ''num_gpus-,gpu_total_ram-'' = Inr [] \<and>
    search_resp w ''rentable=true reliability>0.95 num_gpus>=2'' ''num_gpus-,gpu_total_ram-'' = Inr (b # bs) \<longrightarrow>
      find_best_gpu w =
        ([(Search ''rentable=true reliability>0.95 num_gpus>=4 dph_total<10.0''
             ''num_gpus-,gpu_total_ram-'', True),
           (Search ''rentable=true reliability>0.95 num_gpus>=4'' ''num_gpus-,gpu_total_ram-'', True),
           (Search ''rentable=true reliability>0.95 num_gpus>=2'' ''num_gpus-,gpu_total_ram-'', True)],
         (case announce_offer b of Inl e \<Rightarrow> Inl e | Inr u \<Rightarrow> Inr b))) \<and>
   (search_resp w ''rentable=true reliability>0.95 num_gpus>=4 dph_total<10.0''
      ''num_gpus-,gpu_total_ram-'' = Inr [] \<and>
    search_resp w ''rentable=true reliability>0.95 num_gpus>=4'' ''num_gpus-,gpu_total_ram-'' = Inr [] \<and>
    search_resp w ''rentable=true reliability>0.95 num_gpus>=2'' ''num_gpus-,gpu_total_ram-'' = Inr [] \<and>
    search_resp w ''rentable=true reliability>0.95'' ''gpu_total_ram-'' = Inr (b # bs) \<longrightarrow>
      find_best_gpu w =
        ([(Search ''rentable=true reliability>0.95 num_gpus>=4 dph_total<10.0''
             ''num_gpus-,gpu_total_ram-'', True),
           (Search ''rentable=true reliability>0.95 num_gpus>=4'' ''num_gpus-,gpu_total_ram-'', True),
           (Search ''rentable=true reliability>0.95 num_gpus>=2'' ''num_gpus-,gpu_total_ram-'', True),
           (Search ''rentable=true reliability>0.95'' ''gpu_total_ram-'', True)],
         (case announce_offer b of Inl e \<Rightarrow> Inl e | Inr u \<Rightarrow> Inr b))) \<and>
   (search_resp w ''rentable=true reliability>0.95 num_gpus>=4 dph_total<10.0''
      ''num_gpus-,gpu_total_ram-'' = Inr [] \<and>
    search_resp w ''rentable=true reliability>0.95 num_gpus>=4'' ''num_gpus-,gpu_total_ram-'' = Inr [] \<and>
    search_resp w ''rentable=true reliability>0.95 num_gpus>=2'' ''num_gpus-,gpu_total_ram-'' = Inr [] \<and>
    search_resp w ''rentable=true reliability>0.95'' ''gpu_total_ram-'' = Inr [] \<longrightarrow>
      find_best_gpu w =
        ([(Search ''rentable=true reliability>0.95 num_gpus>=4 dph_total<10.0''
             ''num_gpus-,gpu_total_ram-'', True),
           (Search ''rentable=true reliability>0.95 num_gpus>=4'' ''num_gpus-,gpu_total_ram-'', True),
           (Search ''rentable=true reliability>0.95 num_gpus>=2'' ''num_gpus-,gpu_total_ram-'', True),
           (Search ''rentable=true reliability>0.95'' ''gpu_total_ram-'', True)],
         Inl (RuntimeError ''No GPU instances found'')) \<and>
      run w =
        Some ([(Search ''rentable=true reliability>0.95 num_gpus>=4 dph_total<10.0''
             ''num_gpus-,gpu_total_ram-'', True),
           (Search ''rentable=true reliability>0.95 num_gpus>=4'' ''num_gpus-,gpu_total_ram-'', True),
           (Search ''rentable=true reliability>0.95 num_gpus>=2'' ''num_gpus-,gpu_total_ram-'', True),
           (Search ''rentable=true reliability>0.95'' ''gpu_total_ram-'', True)],
              Inl (RuntimeError ''No GPU instances found''))) \<and>
   (map_of (offer_fields b) ''gpu_ram'' = Some ram \<and> py_float ram = Some x \<and>
    map_of (offer_fields b) ''gpu_total_ram'' = Some tot \<and> py_float tot = Some y \<and>
    map_of (offer_fields b) ''num_gpus'' = Some n \<and>
    map_of (offer_fields b) ''gpu_name'' = Some name \<and>
    map_of (offer_fields b) ''dph_total'' = Some price \<and> py_float price = Some z \<longrightarrow>
      announce_offer b = Inr ())"
  using find_best_gpu_tier1 [of w b bs] find_best_gpu_tier2 [of w b bs]
    find_best_gpu_tier3 [of w b bs] find_best_gpu_tier4 [of w b bs] find_best_gpu_none [of w]
    announce_offer_ok [of b ram x tot y n name price z]
  unfolding tier1_query_def tier2_query_def tier3_query_def tier4_query_def
    order_gpus_ram_def order_ram_def
  by (simp add: run_def)

lemma search_world_ok:
  "search_resp world_ok q ord = (if q = tier1_query then Inr [offer8] else Inr [])"
  by (simp add: world_ok_def)

lemma search_world_tier:
  "search_resp (world_tier t) q ord = (if q = t then Inr [offer8] else Inr [])"
  by (simp add: world_tier_def world_tier'_def)

lemma search_world_tier':
  "search_resp (world_tier' t b) q ord = (if q = t then Inr [b] else Inr [])"
  by (simp add: world_tier'_def)

lemma tier_queries_differ:
  "tier1_query \<noteq> tier2_query" "tier1_query \<noteq> tier3_query" "tier1_query \<noteq> tier4_query"
  "tier2_query \<noteq> tier3_query" "tier2_query \<noteq> tier4_query" "tier3_query \<noteq> tier4_query"
  "tier1_query \<noteq> []" "tier2_query \<noteq> []" "tier3_query \<noteq> []" "tier4_query \<noteq> []"
  by (simp_all add: tier1_query_def tier2_query_def tier3_query_def tier4_query_def)

lemma announce_offer8: "announce_offer offer8 = Inr ()"
  by (simp add: announce_offer_def offer8_def py_div_1024_def)

lemma announce_offer_no_price: "announce_offer offer_no_price = Inl (KeyError ''dph_total'')"
  by (simp add: announce_offer_def offer_no_price_def py_div_1024_def)

text \<open>
  One world for each tier that answers first, one where none does (no tier has the
  empty query), and one where the first offer of tier 3 has no price.
\<close>

theorem find_best_gpu_fallback_witness:
  "search_resp world_ok ''rentable=true reliability>0.95 num_gpus>=4 dph_total<10.0''
     ''num_gpus-,gpu_total_ram-'' = Inr [offer8] \<and>
   map_of (offer_fields offer8) ''gpu_ram'' = Some (JInt 24576) \<and>
   map_of (offer_fields offer8) ''gpu_total_ram'' = Some (JInt 196608) \<and>
   map_of (offer_fields offer8) ''num_gpus'' = Some (JInt 8) \<and>
   map_of (offer_fields offer8) ''gpu_name'' = Some (JStr ''RTX 4090'') \<and>
   map_of (offer_fields offer8) ''dph_total'' = Some (JFloat 5) \<and>
   announce_offer offer8 = Inr () \<and>
   map_of (offer_fields offer_no_price) ''dph_total'' = None \<and>
   find_best_gpu world_ok =
     ([(Search ''rentable=true reliability>0.95 num_gpus>=4 dph_total<10.0''
          ''num_gpus-,gpu_total_ram-'', True)], Inr offer8) \<and>
   search_resp (world_tier ''rentable=true reliability>0.95 num_gpus>=4'')
     ''rentable=true reliability>0.95 num_gpus>=4 dph_total<10.0''
     ''num_gpus-,gpu_total_ram-'' = Inr [] \<and>
   search_resp (world_tier ''rentable=true reliability>0.95 num_gpus>=4'')
     ''rentable=true reliability>0.95 num_gpus>=4'' ''num_gpus-,gpu_total_ram-'' = Inr [offer8] \<and>
   find_best_gpu (world_tier ''rentable=true reliability>0.95 num_gpus>=4'') =
     ([(Search ''rentable=true reliability>0.95 num_gpus>=4 dph_total<10.0''
          ''num_gpus-,gpu_total_ram-'', True),
        (Search ''rentable=true reliability>0.95 num_gpus>=4'' ''num_gpus-,gpu_total_ram-'', True)],
      Inr offer8) \<and>
   find_best_gpu (world_tier ''rentable=true reliability>0.95 num_gpus>=2'') =
     ([(Search ''rentable=true reliability>0.95 num_gpus>=4 dph_total<10.0''
          ''num_gpus-,gpu_total_ram-'', True),
        (Search ''rentable=true reliability>0.95 num_gpus>=4'' ''num_gpus-,gpu_total_ram-'', True),
        (Search ''rentable=true reliability>0.95 num_gpus>=2'' ''num_gpus-,gpu_total_ram-'', True)],
      Inr offer8) \<and>
   find_best_gpu (world_tier ''rentable=true reliability>0.95'') =
     ([(Search ''rentable=true reliability>0.95 num_gpus>=4 dph_total<10.0''
          ''num_gpus-,gpu_total_ram-'', True),
        (Search ''rentable=true reliability>0.95 num_gpus>=4'' ''num_gpus-,gpu_total_ram-'', True),
        (Search ''rentable=true reliability>0.95 num_gpus>=2'' ''num_gpus-,gpu_total_ram-'', True),
        (Search ''rentable=true reliability>0.95'' ''gpu_total_ram-'', True)],
      Inr offer8) \<and>
   search_resp (world_tier []) ''rentable=true reliability>0.95'' ''gpu_total_ram-'' = Inr [] \<and>
   run (world_tier []) =
     Some ([(Search ''rentable=true reliability>0.95 num_gpus>=4 dph_total<10.0''
          ''num_gpus-,gpu_total_ram-'', True),
        (Search ''rentable=true reliability>0.95 num_gpus>=4'' ''num_gpus-,gpu_total_ram-'', True),
        (Search ''rentable=true reliability>0.95 num_gpus>=2'' ''num_gpus-,gpu_total_ram-'', True),
        (Search ''rentable=true reliability>0.95'' ''gpu_total_ram-'', True)],
           Inl (RuntimeError ''No GPU instances found'')) \<and>
   search_resp (world_tier' ''rentable=true reliability>0.95 num_gpus>=2'' offer_no_price)
     ''rentable=true reliability>0.95 num_gpus>=2'' ''num_gpus-,gpu_total_ram-'' = Inr [offer_no_price] \<and>
   find_best_gpu (world_tier' ''rentable=true reliability>0.95 num_gpus>=2'' offer_no_price) =
     ([(Search ''rentable=true reliability>0.95 num_gpus>=4 dph_total<10.0''
          ''num_gpus-,gpu_total_ram-'', True),
        (Search ''rentable=true reliability>0.95 num_gpus>=4'' ''num_gpus-,gpu_total_ram-'', True),
        (Search ''rentable=true reliability>0.95 num_gpus>=2'' ''num_gpus-,gpu_total_ram-'', True)],
      Inl (KeyError ''dph_total''))"
  using find_best_gpu_fallback [of world_ok offer8 "[]" "JInt 24576" 24576 "JInt 196608" 196608
      "JInt 8" "JStr ''RTX 4090''" "JFloat 5" 5]
    find_best_gpu_fallback [of "world_tier tier2_query" offer8 "[]"]
    find_best_gpu_fallback [of "world_tier tier3_query" offer8 "[]"]
    find_best_gpu_fallback [of "world_tier tier4_query" offer8 "[]"]
    find_best_gpu_fallback [of "world_tier []" offer8 "[]"]
    find_best_gpu_fallback [of "world_tier' tier3_query offer_no_price" offer_no_price "[]"]
    tier_queries_differ tier_queries_differ [symmetric]
  unfolding tier1_query_def tier2_query_def tier3_query_def tier4_query_def
    order_gpus_ram_def order_ram_def
  by (simp add: search_world_ok search_world_tier search_world_tier' announce_offer_no_price
        tier1_query_def tier2_query_def tier3_query_def tier4_query_def)
     (simp add: offer8_def offer_no_price_def)


section \<open>Connection resolution\<close>

text \<open>
  Claim C6, as the code has it. The first statement of \<^verbatim>\<open>run_on_instance\<close> reads
  \<^verbatim>\<open>instance_info["public_ipaddr"]\<close>, so metadata without that key raises \<open>KeyError\<close>
  whatever else it holds. With the key present the order is: \<^verbatim>\<open>ssh_host\<close> and
  \<^verbatim>\<open>ssh_port\<close> when both are present; else the value of \<^verbatim>\<open>22/tcp\<close> in \<^verbatim>\<open>ports\<close>, of which
  the \<^verbatim>\<open>HostPort\<close> of the first binding is taken when it is a non-empty list, and which is
  taken as it is otherwise; else, when \<^verbatim>\<open>ports\<close> is absent or does not contain \<^verbatim>\<open>22/tcp\<close>,
  \<^verbatim>\<open>direct_port_start\<close>; else port 22, on the public address. A \<^verbatim>\<open>ports\<close> value on which
  \<^verbatim>\<open>in\<close> is not defined raises as well.
\<close>

theorem resolve_connection_priority:
  "(map_of info ''public_ipaddr'' = None \<longrightarrow>
      resolve_connection info = Inl (KeyError ''public_ipaddr'')) \<and>
   (map_of info ''public_ipaddr'' = Some host \<and>
    map_of info ''ssh_host'' = Some h \<and> map_of info ''ssh_port'' = Some p \<longrightarrow>
      resolve_connection info = Inr (h, p)) \<and>
   (map_of info ''public_ipaddr'' = Some host \<and>
    (map_of info ''ssh_host'' = None \<or> map_of info ''ssh_port'' = None) \<and>
    map_of info ''ports'' = Some (JObj m) \<and>
    map_of m ''22/tcp'' = Some (JList (JObj b # bs)) \<and> map_of b ''HostPort'' = Some p \<longrightarrow>
      resolve_connection info = Inr (host, p)) \<and>
   (map_of info ''public_ipaddr'' = Some host \<and>
    (map_of info ''ssh_host'' = None \<or> map_of info ''ssh_port'' = None) \<and>
    map_of info ''ports'' = Some (JObj m) \<and>
    map_of m ''22/tcp'' = Some v \<and> (v = JList [] \<or> (\<forall>xs. v \<noteq> JList xs)) \<longrightarrow>
      resolve_connection info = Inr (host, v)) \<and>
   (map_of info ''public_ipaddr'' = Some host \<and>
    (map_of info ''ssh_host'' = None \<or> map_of info ''ssh_port'' = None) \<and>
    ports_has_ssh info = Inr False \<and> map_of info ''direct_port_start'' = Some p \<longrightarrow>
      resolve_connection info = Inr (host, p)) \<and>
   (map_of info ''public_ipaddr'' = Some host \<and>
    (map_of info ''ssh_host'' = None \<or> map_of info ''ssh_port'' = None) \<and>
    ports_has_ssh info = Inr False \<and> map_of info ''direct_port_start'' = None \<longrightarrow>
      resolve_connection info = Inr (host, JInt 22)) \<and>
   (map_of info ''public_ipaddr'' = Some host \<and>
    (map_of info ''ssh_host'' = None \<or> map_of info ''ssh_port'' = None) \<and>
    ports_has_ssh info = Inl e \<longrightarrow>
      resolve_connection info = Inl e)"
proof (intro conjI impI)
  show "resolve_connection info = Inl (KeyError ''public_ipaddr'')"
    if "map_of info ''public_ipaddr'' = None"
    using that by (simp add: resolve_connection_def)
  show "resolve_connection info = Inr (h, p)"
    if "map_of info ''public_ipaddr'' = Some host \<and>
        map_of info ''ssh_host'' = Some h \<and> map_of info ''ssh_port'' = Some p"
    using that by (simp add: resolve_connection_def)
  show "resolve_connection info = Inr (host, p)"
    if "map_of info ''public_ipaddr'' = Some host \<and>
    (map_of info ''ssh_host'' = None \<or> map_of info ''ssh_port'' = None) \<and>
    map_of info ''ports'' = Some (JObj m) \<and>
    map_of m ''22/tcp'' = Some (JList (JObj b # bs)) \<and> map_of b ''HostPort'' = Some p"
    using that by (auto simp: resolve_connection_def ports_has_ssh_def split: option.splits)
  show "resolve_connection info = Inr (host, v)"
    if "map_of info ''public_ipaddr'' = Some host \<and>
    (map_of info ''ssh_host'' = None \<or> map_of info ''ssh_port'' = None) \<and>
    map_of info ''ports'' = Some (JObj m) \<and>
    map_of m ''22/tcp'' = Some v \<and> (v = JList [] \<or> (\<forall>xs. v \<noteq> JList xs))"
  proof -
    from that have "port_of_info v = Inr v"
      by (cases v rule: port_of_info.cases) auto
    with that show ?thesis
      by (auto simp: resolve_connection_def ports_has_ssh_def split: option.splits)
  qed
  show "resolve_connection info = Inr (host, p)"
    if "map_of info ''public_ipaddr'' = Some host \<and>
    (map_of info ''ssh_host'' = None \<or> map_of info ''ssh_port'' = None) \<and>
    ports_has_ssh info = Inr False \<and> map_of info ''direct_port_start'' = Some p"
    using that by (auto simp: resolve_connection_def split: option.splits)
  show "resolve_connection info = Inr (host, JInt 22)"
    if "map_of info ''public_ipaddr'' = Some host \<and>
    (map_of info ''ssh_host'' = None \<or> map_of info ''ssh_port'' = None) \<and>
    ports_has_ssh info = Inr False \<and> map_of info ''direct_port_start'' = None"
    using that by (auto simp: resolve_connection_def split: option.splits)
  show "resolve_connection info = Inl e"
    if "map_of info ''public_ipaddr'' = Some host \<and>
    (map_of info ''ssh_host'' = None \<or> map_of info ''ssh_port'' = None) \<and>
    ports_has_ssh info = Inl e"
    using that by (auto simp: resolve_connection_def split: option.splits)
qed

text \<open>
  Claim C6 as stated fails: metadata with both explicit ssh fields and no
  \<^verbatim>\<open>public_ipaddr\<close> makes the resolution raise.
\<close>

theorem resolve_without_public_address:
  "resolve_connection [(''ssh_host'', JStr ''ssh4.vast.ai''), (''ssh_port'', JInt 2222)] =
     Inl (KeyError ''public_ipaddr'')"
  by (simp add: resolve_connection_def)

text \<open>One instance of each case of the order, and of the two failures.\<close>

theorem resolve_connection_priority_witness:
  "resolve_connection [] = Inl (KeyError ''public_ipaddr'') \<and>
   resolve_connection instance_4242 = Inr (JStr ''ssh4.vast.ai'', JInt 2222) \<and>
   resolve_connection
     [(''public_ipaddr'', JStr ''10.0.0.1''),
      (''ports'', JObj [(''22/tcp'', JList [JObj [(''HostPort'', JStr ''40022'')]])])] =
     Inr (JStr ''10.0.0.1'', JStr ''40022'') \<and>
   resolve_connection
     [(''public_ipaddr'', JStr ''10.0.0.1''), (''ports'', JObj [(''22/tcp'', JInt 40022)])] =
     Inr (JStr ''10.0.0.1'', JInt 40022) \<and>
   resolve_connection
     [(''public_ipaddr'', JStr ''10.0.0.1''), (''direct_port_start'', JInt 50000)] =
     Inr (JStr ''10.0.0.1'', JInt 50000) \<and>
   resolve_connection [(''public_ipaddr'', JStr ''10.0.0.1'')] =
     Inr (JStr ''10.0.0.1'', JInt 22) \<and>
   resolve_connection [(''public_ipaddr'', JStr ''10.0.0.1''), (''ports'', JNull)] =
     Inl TypeError"
  using
    resolve_connection_priority [where info = "[]"]
    resolve_connection_priority [where info = instance_4242 and host = "JStr ''10.0.0.1''"
      and h = "JStr ''ssh4.vast.ai''" and p = "JInt 2222"]
    resolve_connection_priority [where info = "[(''public_ipaddr'', JStr ''10.0.0.1''),
      (''ports'', JObj [(''22/tcp'', JList [JObj [(''HostPort'', JStr ''40022'')]])])]"
      and host = "JStr ''10.0.0.1''" and p = "JStr ''40022''"
      and m = "[(''22/tcp'', JList [JObj [(''HostPort'', JStr ''40022'')]])]"
      and b = "[(''HostPort'', JStr ''40022'')]" and bs = "[]"]
    resolve_connection_priority [where info = "[(''public_ipaddr'', JStr ''10.0.0.1''),
      (''ports'', JObj [(''22/tcp'', JInt 40022)])]"
      and host = "JStr ''10.0.0.1''" and m = "[(''22/tcp'', JInt 40022)]" and v = "JInt 40022"]
    resolve_connection_priority [where info = "[(''public_ipaddr'', JStr ''10.0.0.1''),
      (''direct_port_start'', JInt 50000)]" and host = "JStr ''10.0.0.1''" and p = "JInt 50000"]
    resolve_connection_priority [where info = "[(''public_ipaddr'', JStr ''10.0.0.1'')]"
      and host = "JStr ''10.0.0.1''"]
    resolve_connection_priority [where info = "[(''public_ipaddr'', JStr ''10.0.0.1''),
      (''ports'', JNull)]" and host = "JStr ''10.0.0.1''" and e = TypeError]
  by (simp add: instance_4242_def ports_has_ssh_def)


section \<open>The shape of a run\<close>

lemma run_after_wait:
  assumes "find_best_gpu w = (t1, Inr instance)"
    and "create_instance w (offer_id instance) = (t2, Inr c)"
    and "wait_for_instance w c 0 = Some waited"
  shows "run w = Some (io_after (t1 @ t2)
           (try_finally (io_bind waited (package_and_run w instance)) (cleanup w c)))"
  using assms by (simp add: run_def)

lemma create_trace:
  "create_instance w oid = (t2, r) \<Longrightarrow> t2 = [(CreateInstance oid, \<not> isl r)]"
  by (auto simp: create_instance_def io_call_def)

lemma destroy_instance_shape:
  "destroy_instance w c =
     (case destroying_print w of
        Inl e \<Rightarrow> ([], Inl e)
      | Inr u \<Rightarrow>
          ([(DestroyInstance c, \<not> isl (destroy_resp w c))],
           case destroy_resp w c of Inl e \<Rightarrow> Inl e | Inr u \<Rightarrow> destroyed_print w))"
  by (simp add: destroy_instance_def io_bind_def io_lift_def io_call_def split: sum.splits)

lemma cleanup_nonzero:
  "c \<noteq> 0 \<Longrightarrow> destroying_print w = Inr () \<Longrightarrow> destroyed_print w = Inr () \<Longrightarrow>
   cleanup w c = ([(DestroyInstance c, \<not> isl (destroy_resp w c))], destroy_resp w c)"
  by (simp add: cleanup_def destroy_instance_shape split: sum.splits)

lemma cleanup_unannounced:
  "c \<noteq> 0 \<Longrightarrow> destroying_print w = Inl e \<Longrightarrow> cleanup w c = ([], Inl e)"
  by (simp add: cleanup_def destroy_instance_shape)

lemma cleanup_zero: "cleanup w 0 = ([], Inr ())"
  by (simp add: cleanup_def io_return_def)

lemma silent_cleanup: "\<not> P (DestroyInstance c) \<Longrightarrow> silent P (cleanup w c)"
  unfolding cleanup_def destroy_instance_def by (intro silent_rules) auto

lemma filter_silent_bind:
  "silent P m \<Longrightarrow> filter (\<lambda>c. P (fst c)) (fst (io_bind m f)) =
     (case snd m of Inl e \<Rightarrow> [] | Inr x \<Rightarrow> filter (\<lambda>c. P (fst c)) (fst (f x)))"
  by (simp add: silent_def io_bind_def split: sum.splits)

lemma run_outcome_after_wait:
  assumes "find_best_gpu w = (t1, Inr instance)"
    and "create_instance w (offer_id instance) = (t2, Inr c)"
    and "wait_for_instance w c 0 = Some (t3, Inr instance_info)"
  shows "run_outcome w =
     Some (case snd (cleanup w c) of
             Inl e \<Rightarrow> Inl e
           | Inr u \<Rightarrow> snd (package_and_run w instance instance_info))"
  using run_after_wait [OF assms]
  by (simp add: run_outcome_def io_after_def try_finally_def io_bind_def split: sum.splits)

lemma package_and_run_outcome:
  assumes "package_project w = (t4, Inr p)" "unlink_resp w p = Inr ()"
    "announce_offer instance = Inr ()"
  shows "snd (package_and_run w instance info) = snd (run_on_instance w info p (project_name w))"
  using assms(1,2) cost_selected [OF assms(3), of w]
  by (simp add: package_and_run_def io_bind_def try_finally_def io_call_def io_lift_def
      split: sum.splits)

lemma no_destroy_for_zero:
  assumes "find_best_gpu w = (t1, Inr instance)"
    and "create_instance w (offer_id instance) = (t2, Inr 0)"
    and "wait_for_instance w 0 0 = Some waited"
  shows "destroyed w = Some []"
proof -
  let ?body = "io_bind waited (package_and_run w instance)"
  have d1: "destroy_calls t1 = []"
    using silent_find_best_gpu [of is_destroy w] assms(1)
    by (simp add: silent_def destroy_calls_def)
  have d2: "destroy_calls t2 = []"
    using create_trace [OF assms(2)] by (simp add: destroy_calls_def)
  have "silent is_destroy waited"
    using silent_wait [OF assms(3)] by simp
  then have "silent is_destroy ?body"
    by (rule silent_bind) (rule silent_package_and_run_destroy)
  then have d3: "destroy_calls (fst ?body) = []"
    by (simp add: silent_def destroy_calls_def)
  show ?thesis
    using run_after_wait [OF assms] d1 d2 d3
    by (simp add: destroyed_def io_after_def try_finally_def cleanup_zero destroy_calls_def)
qed

lemma wait_second_poll:
  assumes "show_resp w 0 = Inr []" "show_resp w (Suc 0) = Inr [info]"
    "map_of info ''id'' = Some (JInt c)" "map_of info ''actual_status'' = Some (JStr ''running'')"
  shows "wait_for_instance w c 0 =
     Some ([(ShowInstances, True), (ShowInstances, True)], Inr info)"
  by (simp add: wait_for_instance.simps [of w c 0] wait_for_instance.simps [of w c "Suc 0"] assms)

lemma wait_first_poll:
  assumes "show_resp w 0 = Inr [info]"
    "map_of info ''id'' = Some (JInt c)" "map_of info ''actual_status'' = Some (JStr ''running'')"
  shows "wait_for_instance w c 0 = Some ([(ShowInstances, True)], Inr info)"
  by (simp add: wait_for_instance.simps [of w c 0] assms)

lemma package_demo:
  assumes "mktemp_resp w = Inr ''/tmp/tmpk3v9.tar.gz''" "project_items w = demo_project"
  shows "package_project w =
     ([(MkTemp ''/tmp/tmpk3v9.tar.gz'', True),
       (TarWrite ''/tmp/tmpk3v9.tar.gz'' [''train.py'', ''src'', ''src/.env'', ''src/model.py''],
        \<not> isl (tar_resp w))],
      case tar_resp w of Inl e \<Rightarrow> Inl e | Inr u \<Rightarrow> Inr ''/tmp/tmpk3v9.tar.gz'')"
  by (simp add: package_project_def assms io_lift_def io_return_def io_bind_def io_call_def
      archive_members_def demo_project_def startswith_dot_def split: sum.splits)

lemma bootstrap_trace:
  assumes "bootstrap w p n = (tb, Inr (dir, training))"
  shows "\<exists>pip. tb =
      [(ScpPut p ''/root/project.tar.gz'', True),
       (Exec ''cd /root && tar -xzf project.tar.gz && rm project.tar.gz'', True),
       (Exec ''ls -la /root/'', True),
       (Exec ''find /root -name 'train.py' -type f'', True),
       (Exec (''ls '' @ dir @ ''/requirements.txt''), True)] @ pip @
      [(Exec (''cd '' @ dir @ '' && python train.py''), True)] \<and>
      (pip = [] \<or> pip = [(Exec (''cd '' @ dir @ '' && pip install -r requirements.txt''), True)])"
  using assms
  by (auto simp: bootstrap_def io_bind_def io_call_def exec_def io_return_def
      split: sum.splits if_splits)

lemma remote_phase_failed:
  assumes "bootstrap w p n = (tb, Inr (dir, training))" "status training \<noteq> 0"
  shows "remote_phase w p n = (tb, Inl (RuntimeError ''Training failed''))"
  using assms by (simp add: remote_phase_def io_bind_def io_raise_def)

lemma run_on_instance_failed:
  assumes "resolve_connection info = Inr (host, port)" "connect_resp w = Inr ()"
    "bootstrap w p n = (tb, Inr (dir, training))" "status training \<noteq> 0"
  shows "run_on_instance w info p n =
     ((SshConnect host port, True) # tb @ [(SshClose, True)],
      Inl (RuntimeError ''Training failed''))"
  using assms(1,2) remote_phase_failed [OF assms(3,4)]
  by (simp add: run_on_instance_def io_bind_def io_lift_def io_call_def try_finally_def)

lemma package_and_run_failed:
  assumes "package_project w = (t4, Inr package_path)"
    and "resolve_connection instance_info = Inr (host, port)"
    and "connect_resp w = Inr ()"
    and "bootstrap w package_path (project_name w) = (tb, Inr (dir, training))"
    and "status training \<noteq> 0"
  shows "package_and_run w instance instance_info =
     (t4 @ [(SshConnect host port, True)] @ tb @
      [(SshClose, True), (Unlink package_path, \<not> isl (unlink_resp w package_path))],
      case unlink_resp w package_path of
        Inl e \<Rightarrow> Inl e
      | Inr u \<Rightarrow> Inl (RuntimeError ''Training failed''))"
  using assms(1) run_on_instance_failed [OF assms(2-5)]
  by (simp add: package_and_run_def io_bind_def try_finally_def io_call_def split: sum.splits)

text \<open>
  A wait during which the instance is never listed does not end, and neither does the
  run: the cleanup is never reached.
\<close>

lemma wait_never_ends:
  assumes "\<forall>n. show_resp w n = Inr []"
  shows "wait_for_instance w c n = None"
proof (rule ccontr)
  assume "wait_for_instance w c n \<noteq> None"
  then obtain m where m: "wait_for_instance w c n = Some m" by auto
  have "\<not> (\<forall>n. show_resp w n = Inr [])"
  proof (rule wait_for_instance.raw_induct
      [where P = "\<lambda>w c n m. \<not> (\<forall>n. show_resp w n = Inr [])"])
    show "wait_for_instance w c n = Some m" by fact
  next
    fix wait w c n m
    assume IH: "\<And>w c n m. wait w c n = Some m \<Longrightarrow> \<not> (\<forall>n. show_resp w n = Inr [])"
      and eq: "(case show_resp w n of
        Inl e \<Rightarrow> Some ([(ShowInstances, False)], Inl e)
      | Inr instances \<Rightarrow>
          (case scan_instances c instances of
             Inl e \<Rightarrow> Some ([(ShowInstances, True)], Inl e)
           | Inr None \<Rightarrow>
               Option.bind (wait w c (Suc n))
                 (\<lambda>later. Some ((ShowInstances, True) # fst later, snd later))
           | Inr (Some inst) \<Rightarrow> Some ([(ShowInstances, True)], Inr inst))) = Some m"
    show "\<not> (\<forall>n. show_resp w n = Inr [])"
    proof
      assume never: "\<forall>n. show_resp w n = Inr []"
      with eq obtain later where "wait w c (Suc n) = Some later"
        by (auto split: bind_splits)
      with IH never show False by blast
    qed
  qed
  with assms show False by simp
qed

lemma run_never_ends:
  assumes "find_best_gpu w = (t1, Inr instance)"
    and "create_instance w (offer_id instance) = (t2, Inr c)"
    and "\<forall>n. show_resp w n = Inr []"
  shows "run w = None"
  using assms(1,2) wait_never_ends [OF assms(3)] by (simp add: run_def)

lemma left_behind_after_unlink:
  assumes "find_best_gpu w = (t1, Inr instance)"
    and "create_instance w (offer_id instance) = (t2, Inr c)"
    and "wait_for_instance w c 0 = Some (t3, Inr instance_info)"
    and "package_project w = (t4, Inr package_path)"
    and "unlink_resp w package_path = Inr ()"
  shows "left_behind w package_path = Some None"
proof -
  let ?deploy = "io_bind (run_on_instance w instance_info package_path (project_name w))
      (\<lambda>_. io_bind (io_lift (cost w instance)) (\<lambda>total. io_call (PrintCost total) (Inr ())))"
  have par: "fst (package_and_run w instance instance_info) =
      (t4 @ fst ?deploy) @ [(Unlink package_path, True)]"
    using assms(4,5) by (simp add: package_and_run_def io_bind_def try_finally_def)
  have cl: "fold apply_event (fst (cleanup w c)) fs = fs" for fs
    by (simp add: cleanup_def destroy_instance_shape io_return_def split: sum.splits)
  have "fst (io_after (t1 @ t2)
      (try_finally (io_bind (t3, Inr instance_info) (package_and_run w instance))
         (cleanup w c))) =
      ((t1 @ t2 @ t3 @ t4 @ fst ?deploy) @ [(Unlink package_path, True)]) @ fst (cleanup w c)"
    by (simp add: io_after_def try_finally_def par)
  then show ?thesis
    using run_after_wait [OF assms(1,2,3)]
    by (simp add: left_behind_def files_after_def cl)
qed

section \<open>The scenarios, evaluated\<close>

lemma dir_demo: "actual_project_dir (''/root/demo/train.py\<newline>'') n = ''/root/demo''"
  by (simp add: actual_project_dir_def strip_def is_space_def)

lemma results_dir_1700000000:
  "clock_results w = 1700000000 \<Longrightarrow> results_dir_name w = ''speedrun_results_1700000000''"
  by (simp add: results_dir_name_def py_int_def str_int_def)

lemma find_models_demo:
  assumes "exec_resp w = remote_ok"
  shows "find_models w ''/root/demo'' patterns =
     ([(Exec ''find /root/demo -name '*.pt' -type f'', True),
       (Exec ''find /root/demo -name '*.pth' -type f'', True),
       (Exec ''find /root/demo -name '*.pkl' -type f'', True),
       (Exec ''find /root/demo -name '*.h5' -type f'', True),
       (Exec ''find /root/demo -name '*.hdf5' -type f'', True)],
      Inr [''/root/demo/models/model.pt'', ''/root/demo/models/weights.pth''])"
  by (simp add: patterns_def exec_def assms remote_ok_def find_command_def io_return_def
      parse_lines_def strip_def is_space_def)

lemma collect_demo:
  assumes "exec_resp w = remote_ok" "dir_exists w = (\<lambda>d. False)" "mkdir_resp w = Inr ()"
    "get_resp w = (\<lambda>r l. Inr ())" "clock_results w = 1700000000"
  shows "collect_artifacts w ''/root/demo'' =
     ([(Exec ''find /root/demo -name '*.pt' -type f'', True),
       (Exec ''find /root/demo -name '*.pth' -type f'', True),
       (Exec ''find /root/demo -name '*.pkl' -type f'', True),
       (Exec ''find /root/demo -name '*.h5' -type f'', True),
       (Exec ''find /root/demo -name '*.hdf5' -type f'', True),
       (Mkdir ''speedrun_results_1700000000'', True),
       (ScpGet ''/root/demo/models/model.pt'' ''speedrun_results_1700000000/model.pt'', True),
       (ScpGet ''/root/demo/models/weights.pth'' ''speedrun_results_1700000000/weights.pth'',
        True)],
      Inr ())"
  by (simp add: collect_artifacts_def find_models_demo [OF assms(1)]
      results_dir_1700000000 [OF assms(5)] mkdir_exist_ok_def assms(2,3,4)
      local_file_def path_name_def path_join_def io_return_def)

lemma bootstrap_demo:
  assumes "exec_resp w = remote_ok" "put_resp w = Inr ()"
  shows "bootstrap w ''/tmp/tmpk3v9.tar.gz'' ''demo'' =
     ([(ScpPut ''/tmp/tmpk3v9.tar.gz'' ''/root/project.tar.gz'', True),
       (Exec ''cd /root && tar -xzf project.tar.gz && rm project.tar.gz'', True),
       (Exec ''ls -la /root/'', True),
       (Exec ''find /root -name 'train.py' -type f'', True),
       (Exec ''ls /root/demo/requirements.txt'', True),
       (Exec ''cd /root/demo && python train.py'', True)],
      Inr (''/root/demo'', \<lparr>out = [], err = [], status = 0\<rparr>))"
  by (simp add: bootstrap_def exec_def assms remote_ok_def find_command_def io_return_def
      dir_demo)

lemma tier1_offer8:
  "search_resp world_ok tier1_query order_gpus_ram = Inr [offer8]"
  "search_resp world_zero tier1_query order_gpus_ram = Inr [offer8]"
  "search_resp world_job_fails tier1_query order_gpus_ram = Inr [offer8]"
  "search_resp world_zero_job_fails tier1_query order_gpus_ram = Inr [offer8]"
  "search_resp world_destroy_fails tier1_query order_gpus_ram = Inr [offer8]"
  "search_resp world_both_fail tier1_query order_gpus_ram = Inr [offer8]"
  "search_resp world_tar_fails tier1_query order_gpus_ram = Inr [offer8]"
  by (simp_all add: world_ok_def world_zero_def world_job_fails_def world_zero_job_fails_def
      world_destroy_fails_def world_both_fail_def world_tar_fails_def)

lemmas find_demo = tier1_offer8 [THEN find_best_gpu_tier1, simplified announce_offer8 sum.case]

lemma prints_ok_worlds:
  "destroying_print world_ok = Inr ()" "destroyed_print world_ok = Inr ()"
  "destroying_print world_job_fails = Inr ()" "destroyed_print world_job_fails = Inr ()"
  "destroying_print world_destroy_fails = Inr ()" "destroyed_print world_destroy_fails = Inr ()"
  "destroying_print world_both_fail = Inr ()" "destroyed_print world_both_fail = Inr ()"
  "destroying_print world_tar_fails = Inr ()" "destroyed_print world_tar_fails = Inr ()"
  by (simp_all add: world_ok_def world_job_fails_def world_destroy_fails_def world_both_fail_def
      world_tar_fails_def)

lemma create_demo:
  "create_instance world_ok (offer_id offer8) = ([(CreateInstance 7, True)], Inr 4242)"
  "create_instance world_zero (offer_id offer8) = ([(CreateInstance 7, True)], Inr 0)"
  "create_instance world_job_fails (offer_id offer8) = ([(CreateInstance 7, True)], Inr 4242)"
  "create_instance world_zero_job_fails (offer_id offer8) = ([(CreateInstance 7, True)], Inr 0)"
  "create_instance world_destroy_fails (offer_id offer8) =
     ([(CreateInstance 7, True)], Inr 4242)"
  "create_instance world_both_fail (offer_id offer8) = ([(CreateInstance 7, True)], Inr 4242)"
  "create_instance world_tar_fails (offer_id offer8) = ([(CreateInstance 7, True)], Inr 4242)"
  by (simp_all add: create_instance_def offer8_def world_ok_def world_zero_def
      world_job_fails_def world_zero_job_fails_def world_destroy_fails_def world_both_fail_def
      world_tar_fails_def)

lemma wait_demo:
  "wait_for_instance world_ok 4242 0 =
     Some ([(ShowInstances, True), (ShowInstances, True)], Inr instance_4242)"
  "wait_for_instance world_job_fails 4242 0 =
     Some ([(ShowInstances, True), (ShowInstances, True)], Inr instance_4242)"
  "wait_for_instance world_destroy_fails 4242 0 =
     Some ([(ShowInstances, True), (ShowInstances, True)], Inr instance_4242)"
  "wait_for_instance world_both_fail 4242 0 =
     Some ([(ShowInstances, True), (ShowInstances, True)], Inr instance_4242)"
  "wait_for_instance world_tar_fails 4242 0 =
     Some ([(ShowInstances, True), (ShowInstances, True)], Inr instance_4242)"
  by (rule wait_second_poll;
      simp add: world_ok_def world_job_fails_def world_destroy_fails_def world_both_fail_def
        world_tar_fails_def instance_4242_def)+

lemma wait_zero:
  "wait_for_instance world_zero 0 0 =
     Some ([(ShowInstances, True)], Inr ((''id'', JInt 0) # tl instance_4242))"
  "wait_for_instance world_zero_job_fails 0 0 =
     Some ([(ShowInstances, True)], Inr ((''id'', JInt 0) # tl instance_4242))"
  by (rule wait_first_poll;
      simp add: world_ok_def world_zero_def world_zero_job_fails_def instance_4242_def)+

lemma package_demo_ok:
  "package_project world_ok =
     ([(MkTemp ''/tmp/tmpk3v9.tar.gz'', True),
       (TarWrite ''/tmp/tmpk3v9.tar.gz'' [''train.py'', ''src'', ''src/.env'', ''src/model.py''],
        True)],
      Inr ''/tmp/tmpk3v9.tar.gz'')"
  "package_project world_zero =
     ([(MkTemp ''/tmp/tmpk3v9.tar.gz'', True),
       (TarWrite ''/tmp/tmpk3v9.tar.gz'' [''train.py'', ''src'', ''src/.env'', ''src/model.py''],
        True)],
      Inr ''/tmp/tmpk3v9.tar.gz'')"
  "package_project world_job_fails =
     ([(MkTemp ''/tmp/tmpk3v9.tar.gz'', True),
       (TarWrite ''/tmp/tmpk3v9.tar.gz'' [''train.py'', ''src'', ''src/.env'', ''src/model.py''],
        True)],
      Inr ''/tmp/tmpk3v9.tar.gz'')"
  "package_project world_zero_job_fails =
     ([(MkTemp ''/tmp/tmpk3v9.tar.gz'', True),
       (TarWrite ''/tmp/tmpk3v9.tar.gz'' [''train.py'', ''src'', ''src/.env'', ''src/model.py''],
        True)],
      Inr ''/tmp/tmpk3v9.tar.gz'')"
  "package_project world_destroy_fails =
     ([(MkTemp ''/tmp/tmpk3v9.tar.gz'', True),
       (TarWrite ''/tmp/tmpk3v9.tar.gz'' [''train.py'', ''src'', ''src/.env'', ''src/model.py''],
        True)],
      Inr ''/tmp/tmpk3v9.tar.gz'')"
  "package_project world_both_fail =
     ([(MkTemp ''/tmp/tmpk3v9.tar.gz'', True),
       (TarWrite ''/tmp/tmpk3v9.tar.gz'' [''train.py'', ''src'', ''src/.env'', ''src/model.py''],
        True)],
      Inr ''/tmp/tmpk3v9.tar.gz'')"
  by (subst package_demo;
      simp add: world_ok_def world_zero_def world_job_fails_def world_zero_job_fails_def
        world_destroy_fails_def world_both_fail_def)+

lemma package_tar_fails:
  "package_project world_tar_fails =
     ([(MkTemp ''/tmp/tmpk3v9.tar.gz'', True),
       (TarWrite ''/tmp/tmpk3v9.tar.gz'' [''train.py'', ''src'', ''src/.env'', ''src/model.py''],
        False)],
      Inl (External ''PermissionError''))"
  by (subst package_demo; simp add: world_ok_def world_tar_fails_def)

lemma deploy_demo_any:
  assumes "resolve_connection info = Inr hp"
    "exec_resp w = remote_ok" "put_resp w = Inr ()" "connect_resp w = Inr ()"
    "dir_exists w = (\<lambda>d. False)" "mkdir_resp w = Inr ()"
    "get_resp w = (\<lambda>r l. Inr ())" "clock_results w = 1700000000"
  shows "snd (run_on_instance w info ''/tmp/tmpk3v9.tar.gz'' ''demo'') = Inr ()"
  by (simp add: run_on_instance_def remote_phase_def bootstrap_demo [OF assms(2,3)]
      collect_demo [OF assms(2,5,6,7,8)] assms(1,4) io_lift_def try_finally_def)

lemma resolve_demo:
  "resolve_connection instance_4242 = Inr (JStr ''ssh4.vast.ai'', JInt 2222)"
  "resolve_connection ((''id'', JInt 0) # tl instance_4242) =
     Inr (JStr ''ssh4.vast.ai'', JInt 2222)"
  by (simp_all add: resolve_connection_def instance_4242_def)

lemma deploy_ok_worlds:
  "snd (run_on_instance world_ok instance_4242 ''/tmp/tmpk3v9.tar.gz'' (project_name world_ok)) =
     Inr ()"
  "snd (run_on_instance world_destroy_fails instance_4242 ''/tmp/tmpk3v9.tar.gz''
     (project_name world_destroy_fails)) = Inr ()"
  "snd (run_on_instance world_zero ((''id'', JInt 0) # tl instance_4242) ''/tmp/tmpk3v9.tar.gz''
     (project_name world_zero)) = Inr ()"
  using deploy_demo_any [OF resolve_demo(1), of world_ok]
    deploy_demo_any [OF resolve_demo(1), of world_destroy_fails]
    deploy_demo_any [OF resolve_demo(2), of world_zero]
  by (simp_all add: world_ok_def world_destroy_fails_def world_zero_def)

lemma bootstrap_failing_any:
  assumes "exec_resp w = remote_failing" "put_resp w = Inr ()"
  shows "bootstrap w ''/tmp/tmpk3v9.tar.gz'' ''demo'' =
     ([(ScpPut ''/tmp/tmpk3v9.tar.gz'' ''/root/project.tar.gz'', True),
       (Exec ''cd /root && tar -xzf project.tar.gz && rm project.tar.gz'', True),
       (Exec ''ls -la /root/'', True),
       (Exec ''find /root -name 'train.py' -type f'', True),
       (Exec ''ls /root/demo/requirements.txt'', True),
       (Exec ''cd /root/demo && python train.py'', True)],
      Inr (''/root/demo'', \<lparr>out = ''Traceback'', err = [], status = 1\<rparr>))"
  by (simp add: bootstrap_def exec_def assms remote_failing_def remote_ok_def
      find_command_def io_return_def dir_demo)

lemma bootstrap_failing_worlds:
  "bootstrap world_job_fails ''/tmp/tmpk3v9.tar.gz'' (project_name world_job_fails) =
     ([(ScpPut ''/tmp/tmpk3v9.tar.gz'' ''/root/project.tar.gz'', True),
       (Exec ''cd /root && tar -xzf project.tar.gz && rm project.tar.gz'', True),
       (Exec ''ls -la /root/'', True),
       (Exec ''find /root -name 'train.py' -type f'', True),
       (Exec ''ls /root/demo/requirements.txt'', True),
       (Exec ''cd /root/demo && python train.py'', True)],
      Inr (''/root/demo'', \<lparr>out = ''Traceback'', err = [], status = 1\<rparr>))"
  "bootstrap world_zero_job_fails ''/tmp/tmpk3v9.tar.gz'' (project_name world_zero_job_fails) =
     ([(ScpPut ''/tmp/tmpk3v9.tar.gz'' ''/root/project.tar.gz'', True),
       (Exec ''cd /root && tar -xzf project.tar.gz && rm project.tar.gz'', True),
       (Exec ''ls -la /root/'', True),
       (Exec ''find /root -name 'train.py' -type f'', True),
       (Exec ''ls /root/demo/requirements.txt'', True),
       (Exec ''cd /root/demo && python train.py'', True)],
      Inr (''/root/demo'', \<lparr>out = ''Traceback'', err = [], status = 1\<rparr>))"
  "bootstrap world_both_fail ''/tmp/tmpk3v9.tar.gz'' (project_name world_both_fail) =
     ([(ScpPut ''/tmp/tmpk3v9.tar.gz'' ''/root/project.tar.gz'', True),
       (Exec ''cd /root && tar -xzf project.tar.gz && rm project.tar.gz'', True),
       (Exec ''ls -la /root/'', True),
       (Exec ''find /root -name 'train.py' -type f'', True),
       (Exec ''ls /root/demo/requirements.txt'', True),
       (Exec ''cd /root/demo && python train.py'', True)],
      Inr (''/root/demo'', \<lparr>out = ''Traceback'', err = [], status = 1\<rparr>))"
  using bootstrap_failing_any [of world_job_fails] bootstrap_failing_any [of world_zero_job_fails]
    bootstrap_failing_any [of world_both_fail]
  by (simp_all add: world_ok_def world_job_fails_def world_zero_def world_zero_job_fails_def
      world_both_fail_def)

lemma connect_ok_worlds:
  "connect_resp world_job_fails = Inr ()" "connect_resp world_zero_job_fails = Inr ()"
  "connect_resp world_both_fail = Inr ()"
  by (simp_all add: world_ok_def world_job_fails_def world_zero_def world_zero_job_fails_def
      world_both_fail_def)

lemma unlink_ok_worlds:
  "unlink_resp world_ok p = Inr ()" "unlink_resp world_zero p = Inr ()"
  "unlink_resp world_job_fails p = Inr ()" "unlink_resp world_zero_job_fails p = Inr ()"
  "unlink_resp world_destroy_fails p = Inr ()" "unlink_resp world_both_fail p = Inr ()"
  by (simp_all add: world_ok_def world_job_fails_def world_zero_def world_zero_job_fails_def
      world_both_fail_def world_destroy_fails_def)

lemma deploy_failing_worlds:
  "snd (run_on_instance world_job_fails instance_4242 ''/tmp/tmpk3v9.tar.gz''
     (project_name world_job_fails)) = Inl (RuntimeError ''Training failed'')"
  "snd (run_on_instance world_zero_job_fails ((''id'', JInt 0) # tl instance_4242)
     ''/tmp/tmpk3v9.tar.gz'' (project_name world_zero_job_fails)) =
     Inl (RuntimeError ''Training failed'')"
  "snd (run_on_instance world_both_fail instance_4242 ''/tmp/tmpk3v9.tar.gz''
     (project_name world_both_fail)) = Inl (RuntimeError ''Training failed'')"
  using run_on_instance_failed [OF resolve_demo(1) connect_ok_worlds(1) bootstrap_failing_worlds(1)]
    run_on_instance_failed [OF resolve_demo(2) connect_ok_worlds(2) bootstrap_failing_worlds(2)]
    run_on_instance_failed [OF resolve_demo(1) connect_ok_worlds(3) bootstrap_failing_worlds(3)]
  by simp_all

lemma outcomes:
  "run_outcome world_ok = Some (Inr ())"
  "run_outcome world_zero = Some (Inr ())"
  "run_outcome world_job_fails = Some (Inl (RuntimeError ''Training failed''))"
  "run_outcome world_zero_job_fails = Some (Inl (RuntimeError ''Training failed''))"
  using run_outcome_after_wait [OF find_demo(1) create_demo(1) wait_demo(1)]
    run_outcome_after_wait [OF find_demo(2) create_demo(2) wait_zero(1)]
    run_outcome_after_wait [OF find_demo(3) create_demo(3) wait_demo(2)]
    run_outcome_after_wait [OF find_demo(4) create_demo(4) wait_zero(2)]
    package_and_run_outcome [OF package_demo_ok(1) unlink_ok_worlds(1) announce_offer8]
    package_and_run_outcome [OF package_demo_ok(2) unlink_ok_worlds(2) announce_offer8]
    package_and_run_outcome [OF package_demo_ok(3) unlink_ok_worlds(3) announce_offer8]
    package_and_run_outcome [OF package_demo_ok(4) unlink_ok_worlds(4) announce_offer8]
    deploy_ok_worlds(1,3) deploy_failing_worlds(1,2)
  by (simp_all add: cleanup_zero cleanup_nonzero prints_ok_worlds)
     (simp_all add: world_ok_def world_job_fails_def)

lemma destroy_fails_worlds:
  "destroy_resp world_destroy_fails 4242 = Inl (RuntimeError ''vastai command failed: '')"
  "destroy_resp world_both_fail 4242 = Inl (RuntimeError ''vastai command failed: '')"
  by (simp_all add: world_destroy_fails_def world_both_fail_def world_job_fails_def world_ok_def)

lemma clock_world_ok:
  "((clock_cost world_ok - clock_start world_ok) / 3600) * dph_total offer8 = 5"
  by (simp add: world_ok_def offer8_def dph_total_def)

section \<open>Teardown of the instance\<close>

text \<open>
  What the outer \<^verbatim>\<open>finally\<close> of \<^verbatim>\<open>run\<close> does for a contract id other than 0, when the
  wait for the instance ends (it found the instance running, or it raised) and the
  progress line of \<^verbatim>\<open>destroy_instance\<close> can be printed: the run ends, its last call is
  the destroy call for that contract, and no call before it is a destroy call, whatever
  happened during the wait, the packaging, the deployment or the collection of artifacts.
\<close>

lemma destroy_once_and_last:
  assumes "find_best_gpu w = (t1, Inr instance)"
    and "create_instance w (offer_id instance) = (t2, Inr c)"
    and "c \<noteq> 0"
    and "wait_for_instance w c 0 = Some waited"
    and "destroying_print w = Inr ()"
  shows "\<exists>m pre. run w = Some m \<and>
           fst m = pre @ [(DestroyInstance c, \<not> isl (destroy_resp w c))] \<and>
           destroy_calls pre = []"
proof -
  let ?body = "io_bind waited (package_and_run w instance)"
  let ?pre = "t1 @ t2 @ fst ?body"
  have "silent is_destroy (find_best_gpu w)"
    by (rule silent_find_best_gpu) simp
  with assms(1) have d1: "destroy_calls t1 = []"
    by (simp add: silent_def destroy_calls_def)
  from create_trace [OF assms(2)] have d2: "destroy_calls t2 = []"
    by (simp add: destroy_calls_def)
  have "silent is_destroy waited"
    using silent_wait [OF assms(4)] by simp
  then have "silent is_destroy ?body"
    by (rule silent_bind) (rule silent_package_and_run_destroy)
  then have d3: "destroy_calls (fst ?body) = []"
    by (simp add: silent_def destroy_calls_def)
  have "run w = Some (io_after (t1 @ t2) (try_finally ?body (cleanup w c)))"
    by (rule run_after_wait [OF assms(1,2,4)])
  moreover have "fst (cleanup w c) = [(DestroyInstance c, \<not> isl (destroy_resp w c))]"
    using assms(3,5) by (simp add: cleanup_def destroy_instance_shape)
  then have "fst (io_after (t1 @ t2) (try_finally ?body (cleanup w c))) =
      ?pre @ [(DestroyInstance c, \<not> isl (destroy_resp w c))]"
    by (simp add: io_after_def try_finally_def)
  moreover have "destroy_calls ?pre = []"
    using d1 d2 d3 by (simp add: destroy_calls_def)
  ultimately show ?thesis by blast
qed

text \<open>
  When that progress line cannot be printed (standard output is gone), the destroy
  command is not issued, and the exception of \<^verbatim>\<open>print\<close> is the outcome of the run.
\<close>

lemma unannounced_destroy_not_issued:
  assumes "find_best_gpu w = (t1, Inr instance)"
    and "create_instance w (offer_id instance) = (t2, Inr c)"
    and "c \<noteq> 0"
    and "wait_for_instance w c 0 = Some waited"
    and "destroying_print w = Inl e"
  shows "destroyed w = Some [] \<and> run_outcome w = Some (Inl e)"
proof -
  let ?body = "io_bind waited (package_and_run w instance)"
  have d1: "destroy_calls t1 = []"
    using silent_find_best_gpu [of is_destroy w] assms(1)
    by (simp add: silent_def destroy_calls_def)
  have d2: "destroy_calls t2 = []"
    using create_trace [OF assms(2)] by (simp add: destroy_calls_def)
  have "silent is_destroy waited"
    using silent_wait [OF assms(4)] by simp
  then have "silent is_destroy ?body"
    by (rule silent_bind) (rule silent_package_and_run_destroy)
  then have d3: "destroy_calls (fst ?body) = []"
    by (simp add: silent_def destroy_calls_def)
  show ?thesis
    using run_after_wait [OF assms(1,2,4)] d1 d2 d3 cleanup_unannounced [OF assms(3,5)]
    by (simp add: destroyed_def run_outcome_def io_after_def try_finally_def destroy_calls_def)
qed

lemma unannounced_destroy_demo:
  "create_instance world_mute (offer_id offer8) = ([(CreateInstance 7, True)], Inr 4242) \<and>
   destroyed world_mute = Some [] \<and>
   run_outcome world_mute = Some (Inl (External ''BrokenPipeError''))"
proof -
  have f: "find_best_gpu world_mute = ([(Search tier1_query order_gpus_ram, True)], Inr offer8)"
    using find_best_gpu_tier1 [of world_mute offer8 "[]"]
    by (simp add: world_mute_def world_ok_def announce_offer8)
  have c: "create_instance world_mute (offer_id offer8) = ([(CreateInstance 7, True)], Inr 4242)"
    by (simp add: create_instance_def offer8_def world_mute_def world_ok_def)
  have w: "wait_for_instance world_mute 4242 0 =
      Some ([(ShowInstances, True), (ShowInstances, True)], Inr instance_4242)"
    by (rule wait_second_poll; simp add: world_mute_def world_ok_def instance_4242_def)
  have p: "destroying_print world_mute = Inl (External ''BrokenPipeError'')"
    by (simp add: world_mute_def)
  have "(4242::int) \<noteq> 0" by simp
  from unannounced_destroy_not_issued [OF f c this w p] c show ?thesis by simp
qed

text \<open>
  The run that goes well and the run whose training fails both end with the one destroy
  call for contract 4242.
\<close>

lemma destroy_once_and_last_demo:
  "find_best_gpu world_ok = ([(Search tier1_query order_gpus_ram, True)], Inr offer8) \<and>
   create_instance world_ok (offer_id offer8) = ([(CreateInstance 7, True)], Inr 4242) \<and>
   wait_for_instance world_ok 4242 0 =
     Some ([(ShowInstances, True), (ShowInstances, True)], Inr instance_4242) \<and>
   (\<exists>m pre. run world_ok = Some m \<and>
      fst m = pre @ [(DestroyInstance 4242, True)] \<and> destroy_calls pre = []) \<and>
   run_outcome world_job_fails = Some (Inl (RuntimeError ''Training failed'')) \<and>
   (\<exists>m pre. run world_job_fails = Some m \<and>
      fst m = pre @ [(DestroyInstance 4242, True)] \<and> destroy_calls pre = [])"
proof -
  have d: "destroy_resp world_ok 4242 = Inr ()" "destroy_resp world_job_fails 4242 = Inr ()"
    by (simp_all add: world_ok_def world_job_fails_def)
  show ?thesis
    using destroy_once_and_last [OF find_demo(1) create_demo(1) _ wait_demo(1) prints_ok_worlds(1)]
      destroy_once_and_last [OF find_demo(3) create_demo(3) _ wait_demo(2) prints_ok_worlds(3)]
      find_demo(1) create_demo(1) wait_demo(1) outcomes(3)
    by (simp add: d)
qed

text \<open>
  Claim C1: every run that creates an instance makes exactly one destroy call, the last
  call of the run, on every exit path, so that no created instance outlives the run. The
  code sets out to do that (\<^verbatim>\<open>contract_id = None\<close> before the \<^verbatim>\<open>try\<close>, the destroy call
  in the outer \<^verbatim>\<open>finally\<close>) but guards the call with \<^verbatim>\<open>if contract_id:\<close>, which tells
  \<^verbatim>\<open>None\<close> from a contract id by truthiness, and 0 is falsy too. When the backend answers
  the creation with contract id 0, the instance is created, found running, used for a
  training that succeeds, and the run ends normally without a destroy call.
\<close>

theorem zero_contract_never_destroyed:
  "create_instance world_zero (offer_id offer8) = ([(CreateInstance 7, True)], Inr 0) \<and>
   wait_for_instance world_zero 0 0 =
     Some ([(ShowInstances, True)], Inr ((''id'', JInt 0) # tl instance_4242)) \<and>
   run_outcome world_zero = Some (Inr ()) \<and>
   destroyed world_zero = Some [] \<and>
   destroyed world_ok = Some [(DestroyInstance 4242, True)]"
proof -
  have d: "destroy_resp world_ok 4242 = Inr ()"
    by (simp add: world_ok_def)
  have "(4242::int) \<noteq> 0" by simp
  from destroy_once_and_last [OF find_demo(1) create_demo(1) this wait_demo(1)
      prints_ok_worlds(1)]
  have "destroyed world_ok = Some [(DestroyInstance 4242, True)]"
    by (auto simp: destroyed_def destroy_calls_def d)
  then show ?thesis
    using create_demo(2) wait_zero(1) outcomes(2)
      no_destroy_for_zero [OF find_demo(2) create_demo(2) wait_zero(1)]
    by simp
qed

section \<open>A failing destroy call\<close>

text \<open>
  Claim C2, as the code has it. \<^verbatim>\<open>destroy_instance\<close> is called in the outer
  \<^verbatim>\<open>finally\<close> with no \<^verbatim>\<open>try\<close> around it, and \<^verbatim>\<open>_run_vastai_cmd\<close> raises when the
  command fails. When the destroy call made during cleanup fails, its exception is the
  outcome of the run: it replaces the result of a job that succeeded, and the exception of
  a job that failed. (Where the progress line that precedes the command cannot be printed,
  the command is not issued, and the exception of \<^verbatim>\<open>print\<close> is the outcome instead: an
  exception in either case.)
\<close>

theorem destroy_failure_is_the_outcome:
  assumes "find_best_gpu w = (t1, Inr instance)"
    and "create_instance w (offer_id instance) = (t2, Inr c)"
    and "c \<noteq> 0"
    and "wait_for_instance w c 0 = Some waited"
    and "destroy_resp w c = Inl e"
  shows "run_outcome w =
     Some (Inl (case destroying_print w of Inl print_error \<Rightarrow> print_error | Inr u \<Rightarrow> e))"
proof -
  have "snd (cleanup w c) =
      Inl (case destroying_print w of Inl print_error \<Rightarrow> print_error | Inr u \<Rightarrow> e)"
    using assms(3,5) by (simp add: cleanup_def destroy_instance_shape split: sum.splits)
  then have "snd (try_finally (io_bind waited (package_and_run w instance)) (cleanup w c)) =
      Inl (case destroying_print w of Inl print_error \<Rightarrow> print_error | Inr u \<Rightarrow> e)"
    by (simp add: try_finally_def)
  then show ?thesis
    using run_after_wait [OF assms(1,2,4)] by (simp add: run_outcome_def io_after_def)
qed

text \<open>
  Claim C2 as stated fails: packaging, deployment, training and collection all went
  well, the destroy command failed, and the run ends with the exception of the destroy
  command.
\<close>

theorem destroy_failure_masks_success:
  "snd (package_and_run world_destroy_fails offer8 instance_4242) = Inr () \<and>
   run_outcome world_destroy_fails = Some (Inl (RuntimeError ''vastai command failed: ''))"
proof -
  have "(4242::int) \<noteq> 0" by simp
  from run_outcome_after_wait [OF find_demo(5) create_demo(5) wait_demo(3)]
    cleanup_nonzero [OF this prints_ok_worlds(5,6)] destroy_fails_worlds(1)
    package_and_run_outcome [OF package_demo_ok(5) unlink_ok_worlds(5) announce_offer8]
    deploy_ok_worlds(2)
  show ?thesis by simp
qed

text \<open>
  Training fails and the destroy command fails: the run ends with the exception of the
  destroy command, not with \<^verbatim>\<open>Training failed\<close>.
\<close>

theorem destroy_failure_is_the_outcome_witness:
  "find_best_gpu world_both_fail = ([(Search tier1_query order_gpus_ram, True)], Inr offer8) \<and>
   create_instance world_both_fail (offer_id offer8) = ([(CreateInstance 7, True)], Inr 4242) \<and>
   destroying_print world_both_fail = Inr () \<and>
   destroy_resp world_both_fail 4242 = Inl (RuntimeError ''vastai command failed: '') \<and>
   snd (run_on_instance world_both_fail instance_4242 ''/tmp/tmpk3v9.tar.gz''
          (project_name world_both_fail)) = Inl (RuntimeError ''Training failed'') \<and>
   run_outcome world_both_fail = Some (Inl (RuntimeError ''vastai command failed: ''))"
proof -
  have "(4242::int) \<noteq> 0" by simp
  from destroy_failure_is_the_outcome [OF find_demo(6) create_demo(6) this wait_demo(4)
      destroy_fails_worlds(2)]
    find_demo(6) create_demo(6) destroy_fails_worlds(2) deploy_failing_worlds(3)
    prints_ok_worlds(7)
  show ?thesis by simp
qed

section \<open>The cost\<close>

text \<open>
  Claim C3, as the code has it. The cost is computed and printed inside the inner
  \<^verbatim>\<open>try\<close>, after \<^verbatim>\<open>run_on_instance\<close> has returned. For every run that reaches the
  deployment (an offer was selected, the instance was created and found running, the
  project was packaged): when \<^verbatim>\<open>run_on_instance\<close> returns normally, exactly one cost is
  printed, the time elapsed since the start time read at the beginning of \<^verbatim>\<open>run\<close>, in
  hours, times the hourly price of the offer that \<^verbatim>\<open>find_best_gpu\<close> selected (no backend
  call is involved); when \<^verbatim>\<open>run_on_instance\<close> raises, no cost is computed.
\<close>

theorem cost_after_successful_deployment:
  assumes "find_best_gpu w = (t1, Inr instance)"
    and "create_instance w (offer_id instance) = (t2, Inr c)"
    and "wait_for_instance w c 0 = Some (t3, Inr instance_info)"
    and "package_project w = (t4, Inr package_path)"
  shows "costs_printed w =
     Some (if isl (snd (run_on_instance w instance_info package_path (project_name w)))
           then []
           else [(PrintCost (((clock_cost w - clock_start w) / 3600) * dph_total instance),
                  True)])"
proof -
  let ?deploy = "run_on_instance w instance_info package_path (project_name w)"
  let ?total = "((clock_cost w - clock_start w) / 3600) * dph_total instance"
  let ?inner = "io_bind ?deploy (\<lambda>_.
      io_bind (io_lift (cost w instance)) (\<lambda>total. io_call (PrintCost total) (Inr ())))"
  let ?unlink = "io_call (Unlink package_path) (unlink_resp w package_path)"
  have price: "cost w instance = Inr ?total"
    by (rule cost_selected [OF find_best_gpu_announced [OF assms(1)]])
  have s1: "printed_costs t1 = []"
    using silent_find_best_gpu [of is_cost w] assms(1)
    by (simp add: silent_def printed_costs_def)
  have s2: "printed_costs t2 = []"
    using create_trace [OF assms(2)] by (simp add: printed_costs_def)
  have s3: "printed_costs t3 = []"
    using silent_wait [OF assms(3), of is_cost] by (simp add: silent_def printed_costs_def)
  have s4: "printed_costs t4 = []"
    using silent_package_project [of is_cost w] assms(4)
    by (simp add: silent_def printed_costs_def)
  have sd: "silent is_cost ?deploy"
    by (rule silent_run_on_instance) simp_all
  have inner: "printed_costs (fst ?inner) =
      (if isl (snd ?deploy) then [] else [(PrintCost ?total, True)])"
    using filter_silent_bind [OF sd, of "\<lambda>_.
      io_bind (io_lift (cost w instance)) (\<lambda>total. io_call (PrintCost total) (Inr ()))"]
    by (simp add: printed_costs_def io_call_def io_lift_def price split: sum.splits)
  have par: "package_and_run w instance instance_info =
      (t4 @ fst (try_finally ?inner ?unlink), snd (try_finally ?inner ?unlink))"
    using assms(4) by (simp add: package_and_run_def io_bind_def)
  have "printed_costs (fst (package_and_run w instance instance_info)) =
      (if isl (snd ?deploy) then [] else [(PrintCost ?total, True)])"
    using inner s4 by (simp add: par try_finally_def printed_costs_def io_call_def)
  moreover have "printed_costs (fst (cleanup w c)) = []"
    using silent_cleanup [of is_cost c w] by (simp add: silent_def printed_costs_def)
  ultimately have "printed_costs (fst (io_after (t1 @ t2)
      (try_finally (io_bind (t3, Inr instance_info) (package_and_run w instance))
         (cleanup w c)))) =
      (if isl (snd ?deploy) then [] else [(PrintCost ?total, True)])"
    using s1 s2 s3 by (simp add: io_after_def try_finally_def io_bind_def printed_costs_def)
  then show ?thesis
    using run_after_wait [OF assms(1,2,3)] by (simp add: costs_printed_def)
qed

text \<open>
  Claim C3 as stated fails: the run whose training exits with status 1 reached
  provisioning and deployment, and prints no cost.
\<close>

theorem no_cost_after_failed_job:
  "run_outcome world_job_fails = Some (Inl (RuntimeError ''Training failed'')) \<and>
   costs_printed world_job_fails = Some []"
proof -
  have "(1::int) \<noteq> 0" by simp
  then have "status \<lparr>out = ''Traceback'', err = [], status = 1\<rparr> \<noteq> 0" by simp
  from package_and_run_failed [OF package_demo_ok(3) resolve_demo(1) connect_ok_worlds(1)
      bootstrap_failing_worlds(1) this]
  have "printed_costs (fst (package_and_run world_job_fails offer8 instance_4242)) = []"
    by (simp add: printed_costs_def)
  moreover have "printed_costs (fst (cleanup world_job_fails 4242)) = []"
    using silent_cleanup [of is_cost 4242 world_job_fails]
    by (simp add: silent_def printed_costs_def)
  ultimately have "costs_printed world_job_fails = Some []"
    using run_after_wait [OF find_demo(3) create_demo(3) wait_demo(2)]
    by (simp add: costs_printed_def io_after_def try_finally_def printed_costs_def)
  with outcomes(3) show ?thesis by simp
qed

text \<open>
  One hour at 5 dollars an hour: the run that goes well prints a cost of 5; the run whose
  training fails prints none.
\<close>

theorem cost_after_successful_deployment_witness:
  "find_best_gpu world_ok = ([(Search tier1_query order_gpus_ram, True)], Inr offer8) \<and>
   create_instance world_ok (offer_id offer8) = ([(CreateInstance 7, True)], Inr 4242) \<and>
   snd (run_on_instance world_ok instance_4242 ''/tmp/tmpk3v9.tar.gz'' (project_name world_ok)) =
     Inr () \<and>
   costs_printed world_ok = Some [(PrintCost 5, True)] \<and>
   snd (run_on_instance world_job_fails instance_4242 ''/tmp/tmpk3v9.tar.gz''
          (project_name world_job_fails)) = Inl (RuntimeError ''Training failed'') \<and>
   costs_printed world_job_fails = Some []"
  using
    cost_after_successful_deployment [OF find_demo(1) create_demo(1) wait_demo(1)
      package_demo_ok(1)]
    cost_after_successful_deployment [OF find_demo(3) create_demo(3) wait_demo(2)
      package_demo_ok(3)]
    find_demo(1) create_demo(1) deploy_ok_worlds(1) deploy_failing_worlds(1) clock_world_ok
  by simp

section \<open>A failing job\<close>

text \<open>
  When the training command exits with a non-zero status, \<^verbatim>\<open>run_on_instance\<close> raises the
  \<open>RuntimeError\<close> \<^verbatim>\<open>Training failed\<close> (the spec's \<^verbatim>\<open>JobFailedError\<close>); its calls are the
  connection, the upload, the four bootstrap commands, the \<^verbatim>\<open>pip install\<close> if there is a
  requirements file, the training command, and the closing of the session: no artifact
  search and no download. In \<^verbatim>\<open>run\<close> the archive is then unlinked, and for a contract id
  other than 0 whose progress line can be printed the destroy call is the last call of the
  run.
\<close>

lemma failed_job_skips_collection:
  assumes "find_best_gpu w = (t1, Inr instance)"
    and "create_instance w (offer_id instance) = (t2, Inr c)"
    and "c \<noteq> 0"
    and "wait_for_instance w c 0 = Some (t3, Inr instance_info)"
    and "package_project w = (t4, Inr package_path)"
    and "resolve_connection instance_info = Inr (host, port)"
    and "connect_resp w = Inr ()"
    and "bootstrap w package_path (project_name w) = (tb, Inr (dir, training))"
    and "status training \<noteq> 0"
    and "destroying_print w = Inr ()"
  shows "run_on_instance w instance_info package_path (project_name w) =
           ((SshConnect host port, True) # tb @ [(SshClose, True)],
            Inl (RuntimeError ''Training failed'')) \<and>
         (\<exists>pip. tb =
            [(ScpPut package_path ''/root/project.tar.gz'', True),
             (Exec ''cd /root && tar -xzf project.tar.gz && rm project.tar.gz'', True),
             (Exec ''ls -la /root/'', True),
             (Exec ''find /root -name 'train.py' -type f'', True),
             (Exec (''ls '' @ dir @ ''/requirements.txt''), True)] @ pip @
            [(Exec (''cd '' @ dir @ '' && python train.py''), True)] \<and>
            (pip = [] \<or>
             pip = [(Exec (''cd '' @ dir @ '' && pip install -r requirements.txt''), True)])) \<and>
         (\<exists>m. run w = Some m \<and>
            fst m = t1 @ t2 @ t3 @ t4 @ [(SshConnect host port, True)] @ tb @
                    [(SshClose, True),
                     (Unlink package_path, \<not> isl (unlink_resp w package_path)),
                     (DestroyInstance c, \<not> isl (destroy_resp w c))])"
proof (intro conjI)
  show deploy: "run_on_instance w instance_info package_path (project_name w) =
      ((SshConnect host port, True) # tb @ [(SshClose, True)],
       Inl (RuntimeError ''Training failed''))"
    by (rule run_on_instance_failed [OF assms(6-9)])
  show "\<exists>pip. tb =
            [(ScpPut package_path ''/root/project.tar.gz'', True),
             (Exec ''cd /root && tar -xzf project.tar.gz && rm project.tar.gz'', True),
             (Exec ''ls -la /root/'', True),
             (Exec ''find /root -name 'train.py' -type f'', True),
             (Exec (''ls '' @ dir @ ''/requirements.txt''), True)] @ pip @
            [(Exec (''cd '' @ dir @ '' && python train.py''), True)] \<and>
            (pip = [] \<or>
             pip = [(Exec (''cd '' @ dir @ '' && pip install -r requirements.txt''), True)])"
    by (rule bootstrap_trace [OF assms(8)])
  have "fst (package_and_run w instance instance_info) =
      t4 @ [(SshConnect host port, True)] @ tb @
      [(SshClose, True), (Unlink package_path, \<not> isl (unlink_resp w package_path))]"
    using package_and_run_failed [OF assms(5-9)] by simp
  then show "\<exists>m. run w = Some m \<and>
            fst m = t1 @ t2 @ t3 @ t4 @ [(SshConnect host port, True)] @ tb @
                    [(SshClose, True),
                     (Unlink package_path, \<not> isl (unlink_resp w package_path)),
                     (DestroyInstance c, \<not> isl (destroy_resp w c))]"
    using run_after_wait [OF assms(1,2,4)] assms(3,10)
    by (simp add: io_after_def try_finally_def io_bind_def cleanup_def destroy_instance_shape)
qed

text \<open>The whole run of the world whose training exits with status 1.\<close>

lemma failed_job_skips_collection_demo:
  "bootstrap world_job_fails ''/tmp/tmpk3v9.tar.gz'' (project_name world_job_fails) =
     ([(ScpPut ''/tmp/tmpk3v9.tar.gz'' ''/root/project.tar.gz'', True),
       (Exec ''cd /root && tar -xzf project.tar.gz && rm project.tar.gz'', True),
       (Exec ''ls -la /root/'', True),
       (Exec ''find /root -name 'train.py' -type f'', True),
       (Exec ''ls /root/demo/requirements.txt'', True),
       (Exec ''cd /root/demo && python train.py'', True)],
      Inr (''/root/demo'', \<lparr>out = ''Traceback'', err = [], status = 1\<rparr>)) \<and>
   run_on_instance world_job_fails instance_4242 ''/tmp/tmpk3v9.tar.gz''
       (project_name world_job_fails) =
     ([(SshConnect (JStr ''ssh4.vast.ai'') (JInt 2222), True),
       (ScpPut ''/tmp/tmpk3v9.tar.gz'' ''/root/project.tar.gz'', True),
       (Exec ''cd /root && tar -xzf project.tar.gz && rm project.tar.gz'', True),
       (Exec ''ls -la /root/'', True),
       (Exec ''find /root -name 'train.py' -type f'', True),
       (Exec ''ls /root/demo/requirements.txt'', True),
       (Exec ''cd /root/demo && python train.py'', True),
       (SshClose, True)],
      Inl (RuntimeError ''Training failed'')) \<and>
   run world_job_fails =
     Some ([(Search tier1_query order_gpus_ram, True), (CreateInstance 7, True),
            (ShowInstances, True), (ShowInstances, True),
            (MkTemp ''/tmp/tmpk3v9.tar.gz'', True),
            (TarWrite ''/tmp/tmpk3v9.tar.gz''
               [''train.py'', ''src'', ''src/.env'', ''src/model.py''], True),
            (SshConnect (JStr ''ssh4.vast.ai'') (JInt 2222), True),
            (ScpPut ''/tmp/tmpk3v9.tar.gz'' ''/root/project.tar.gz'', True),
            (Exec ''cd /root && tar -xzf project.tar.gz && rm project.tar.gz'', True),
            (Exec ''ls -la /root/'', True),
            (Exec ''find /root -name 'train.py' -type f'', True),
            (Exec ''ls /root/demo/requirements.txt'', True),
            (Exec ''cd /root/demo && python train.py'', True),
            (SshClose, True),
            (Unlink ''/tmp/tmpk3v9.tar.gz'', True),
            (DestroyInstance 4242, True)],
           Inl (RuntimeError ''Training failed''))"
proof -
  have d: "destroy_resp world_job_fails 4242 = Inr ()"
    by (simp add: world_ok_def world_job_fails_def)
  have "(1::int) \<noteq> 0" by simp
  then have s: "status \<lparr>out = ''Traceback'', err = [], status = 1\<rparr> \<noteq> 0" by simp
  have "(4242::int) \<noteq> 0" by simp
  note run_facts = failed_job_skips_collection [OF find_demo(3) create_demo(3) this wait_demo(2)
      package_demo_ok(3) resolve_demo(1) connect_ok_worlds(1) bootstrap_failing_worlds(1) s
      prints_ok_worlds(3)]
  obtain m where m: "run world_job_fails = Some m"
    and t: "fst m = [(Search tier1_query order_gpus_ram, True)] @ [(CreateInstance 7, True)] @
      [(ShowInstances, True), (ShowInstances, True)] @
      [(MkTemp ''/tmp/tmpk3v9.tar.gz'', True),
       (TarWrite ''/tmp/tmpk3v9.tar.gz''
          [''train.py'', ''src'', ''src/.env'', ''src/model.py''], True)] @
      [(SshConnect (JStr ''ssh4.vast.ai'') (JInt 2222), True)] @
      [(ScpPut ''/tmp/tmpk3v9.tar.gz'' ''/root/project.tar.gz'', True),
       (Exec ''cd /root && tar -xzf project.tar.gz && rm project.tar.gz'', True),
       (Exec ''ls -la /root/'', True),
       (Exec ''find /root -name 'train.py' -type f'', True),
       (Exec ''ls /root/demo/requirements.txt'', True),
       (Exec ''cd /root/demo && python train.py'', True)] @
      [(SshClose, True),
       (Unlink ''/tmp/tmpk3v9.tar.gz'', \<not> isl (unlink_resp world_job_fails ''/tmp/tmpk3v9.tar.gz'')),
       (DestroyInstance 4242, \<not> isl (destroy_resp world_job_fails 4242))]"
    using run_facts by blast
  from m outcomes(3) have "snd m = Inl (RuntimeError ''Training failed'')"
    by (simp add: run_outcome_def)
  with t have "m = ([(Search tier1_query order_gpus_ram, True), (CreateInstance 7, True),
            (ShowInstances, True), (ShowInstances, True),
            (MkTemp ''/tmp/tmpk3v9.tar.gz'', True),
            (TarWrite ''/tmp/tmpk3v9.tar.gz''
               [''train.py'', ''src'', ''src/.env'', ''src/model.py''], True),
            (SshConnect (JStr ''ssh4.vast.ai'') (JInt 2222), True),
            (ScpPut ''/tmp/tmpk3v9.tar.gz'' ''/root/project.tar.gz'', True),
            (Exec ''cd /root && tar -xzf project.tar.gz && rm project.tar.gz'', True),
            (Exec ''ls -la /root/'', True),
            (Exec ''find /root -name 'train.py' -type f'', True),
            (Exec ''ls /root/demo/requirements.txt'', True),
            (Exec ''cd /root/demo && python train.py'', True),
            (SshClose, True),
            (Unlink ''/tmp/tmpk3v9.tar.gz'', True),
            (DestroyInstance 4242, True)],
           Inl (RuntimeError ''Training failed''))"
    by (cases m) (simp add: d unlink_ok_worlds)
  with m run_facts bootstrap_failing_worlds(1) show ?thesis by simp
qed

text \<open>
  Claim C5: when the remote job exits with a non-zero status, the deployment raises,
  artifact collection is skipped, and the instance is still destroyed. The first two
  hold as stated (lemma \<open>failed_job_skips_collection\<close>). The destroy call is the one of
  the outer \<^verbatim>\<open>finally\<close> of \<^verbatim>\<open>run\<close>, guarded by \<^verbatim>\<open>if contract_id:\<close>: the same guard, and
  the same defect, as for a run that goes well. When the backend answers the creation with
  contract id 0 and training exits with status 1, \<^verbatim>\<open>run_on_instance\<close> raises
  \<^verbatim>\<open>Training failed\<close> after the training command and the closing of the session, with no
  artifact search before it, the run ends with that exception, and no destroy call is
  made; with contract id 4242 the same failed job is followed by the destroy call.
\<close>

theorem failed_job_zero_contract:
  "create_instance world_zero_job_fails (offer_id offer8) = ([(CreateInstance 7, True)], Inr 0) \<and>
   run_on_instance world_zero_job_fails ((''id'', JInt 0) # tl instance_4242)
       ''/tmp/tmpk3v9.tar.gz'' (project_name world_zero_job_fails) =
     ([(SshConnect (JStr ''ssh4.vast.ai'') (JInt 2222), True),
       (ScpPut ''/tmp/tmpk3v9.tar.gz'' ''/root/project.tar.gz'', True),
       (Exec ''cd /root && tar -xzf project.tar.gz && rm project.tar.gz'', True),
       (Exec ''ls -la /root/'', True),
       (Exec ''find /root -name 'train.py' -type f'', True),
       (Exec ''ls /root/demo/requirements.txt'', True),
       (Exec ''cd /root/demo && python train.py'', True),
       (SshClose, True)],
      Inl (RuntimeError ''Training failed'')) \<and>
   run_outcome world_zero_job_fails = Some (Inl (RuntimeError ''Training failed'')) \<and>
   destroyed world_zero_job_fails = Some [] \<and>
   destroyed world_job_fails = Some [(DestroyInstance 4242, True)]"
proof -
  have "(1::int) \<noteq> 0" by simp
  then have s: "status \<lparr>out = ''Traceback'', err = [], status = 1\<rparr> \<noteq> 0" by simp
  have d: "destroy_resp world_job_fails 4242 = Inr ()"
    by (simp add: world_ok_def world_job_fails_def)
  have "(4242::int) \<noteq> 0" by simp
  from destroy_once_and_last [OF find_demo(3) create_demo(3) this wait_demo(2)
      prints_ok_worlds(3)]
  have "destroyed world_job_fails = Some [(DestroyInstance 4242, True)]"
    by (auto simp: destroyed_def destroy_calls_def d)
  then show ?thesis
    using create_demo(4) outcomes(4)
      no_destroy_for_zero [OF find_demo(4) create_demo(4) wait_zero(2)]
      run_on_instance_failed [OF resolve_demo(2) connect_ok_worlds(2)
        bootstrap_failing_worlds(2) s]
    by simp
qed

section \<open>The local archive\<close>

text \<open>
  Claim C7: after the deployment phase, whether it returned or raised, the local archive
  is gone. The code does not keep it on one path. \<^verbatim>\<open>package_project\<close> is called before
  the inner \<^verbatim>\<open>try\<close> of \<^verbatim>\<open>run\<close>, so the \<^verbatim>\<open>finally\<close> that unlinks the archive (commented
  \<^verbatim>\<open>Clean up\<close>) does not cover it: when an
  entry of the project cannot be read, \<^verbatim>\<open>tar.add\<close> raises after
  \<^verbatim>\<open>NamedTemporaryFile(delete=False)\<close> has created the file, the run ends with that
  exception, and the temporary archive is still there. Once \<^verbatim>\<open>package_project\<close> has
  returned, the archive is unlinked on every path (lemma \<open>left_behind_after_unlink\<close>), as
  in the run that goes well.
\<close>

theorem failed_packaging_leaves_archive:
  "package_project world_tar_fails =
     ([(MkTemp ''/tmp/tmpk3v9.tar.gz'', True),
       (TarWrite ''/tmp/tmpk3v9.tar.gz'' [''train.py'', ''src'', ''src/.env'', ''src/model.py''],
        False)],
      Inl (External ''PermissionError'')) \<and>
   run_outcome world_tar_fails = Some (Inl (External ''PermissionError'')) \<and>
   left_behind world_tar_fails ''/tmp/tmpk3v9.tar.gz'' = Some (Some TempArchive) \<and>
   left_behind world_ok ''/tmp/tmpk3v9.tar.gz'' = Some None"
proof -
  note ok = left_behind_after_unlink [OF find_demo(1) create_demo(1) wait_demo(1)
      package_demo_ok(1) unlink_ok_worlds(1)]
  have d: "destroy_resp world_tar_fails 4242 = Inr ()"
    by (simp add: world_tar_fails_def world_ok_def)
  have "(4242::int) \<noteq> 0" by simp
  note c = cleanup_nonzero [OF this prints_ok_worlds(9,10)]
  have p: "package_and_run world_tar_fails offer8 instance_4242 =
      (fst (package_project world_tar_fails), Inl (External ''PermissionError''))"
    by (simp add: package_and_run_def package_tar_fails)
  have "run_outcome world_tar_fails = Some (Inl (External ''PermissionError'')) \<and>
      left_behind world_tar_fails ''/tmp/tmpk3v9.tar.gz'' = Some (Some TempArchive)"
    using run_after_wait [OF find_demo(7) create_demo(7) wait_demo(5)]
    by (simp add: package_tar_fails p c d run_outcome_def left_behind_def io_after_def
        try_finally_def files_after_def)
  with ok package_tar_fails show ?thesis by simp
qed


section \<open>Artifact collection\<close>

lemma download_all_ok:
  "\<forall>r \<in> set rs. get_resp w r (local_file d r) = Inr () \<Longrightarrow>
   download_all w d rs = (map (\<lambda>r. (ScpGet r (local_file d r), True)) rs, Inr ())"
  by (induction rs) (simp_all add: io_return_def)

lemma find_models_ok:
  "\<forall>pattern \<in> set ps. exec_resp w (find_command dir pattern) = Inr (found pattern) \<Longrightarrow>
   find_models w dir ps =
     (map (\<lambda>pattern. (Exec (find_command dir pattern), True)) ps,
      Inr (concat (map (\<lambda>pattern. parse_lines (out (found pattern))) ps)))"
  by (induction ps) (simp_all add: io_return_def exec_def)

text \<open>\<^verbatim>\<open>strip\<close> removes the white space above the ASCII range as well.\<close>

lemma strip_next_line_no_break_space:
  "strip (CHR 0xA0 # ''/root/demo/a.pt'' @ [CHR 0x85, CHR 0x0D]) = ''/root/demo/a.pt''"
  by (simp add: strip_def is_space_def)

text \<open>
  Claim C8, as the code has it. \<^verbatim>\<open>run_on_instance\<close> runs the command
  \<^verbatim>\<open>find <project root> -name '<pattern>' -type f\<close> for each of the five patterns, in
  order, and appends the non-blank lines of each output, stripped, to \<^verbatim>\<open>model_files\<close>:
  nothing removes a path that is listed twice. If the list is empty, nothing else is done
  and nothing is raised. Otherwise the directory \<^verbatim>\<open>speedrun_results_<seconds>\<close> is made
  with \<^verbatim>\<open>exist_ok=True\<close>, so a directory of that name that exists already is used as it
  is, and every listed path is downloaded, in order, to the file of its last component in
  that directory, as long as no transfer raises.
\<close>

theorem collect_artifacts_steps:
  assumes "\<forall>pattern \<in> set [''*.pt'', ''*.pth'', ''*.pkl'', ''*.h5'', ''*.hdf5''].
      exec_resp w (''find '' @ dir @ '' -name '' @ [CHR 0x27] @ pattern @ [CHR 0x27] @ '' -type f'') =
        Inr (found pattern)"
  shows "patterns = [''*.pt'', ''*.pth'', ''*.pkl'', ''*.h5'', ''*.hdf5''] \<and>
    (let files = concat (map (\<lambda>pattern. parse_lines (out (found pattern)))
                   [''*.pt'', ''*.pth'', ''*.pkl'', ''*.h5'', ''*.hdf5'']);
         results_dir = ''speedrun_results_'' @ str_int (py_int (clock_results w));
         searches = map (\<lambda>pattern.
                      (Exec (''find '' @ dir @ '' -name '' @ [CHR 0x27] @ pattern @ [CHR 0x27] @ '' -type f''),
                       True))
                   [''*.pt'', ''*.pth'', ''*.pkl'', ''*.h5'', ''*.hdf5'']
     in (files = [] \<longrightarrow> collect_artifacts w dir = (searches, Inr ())) \<and>
        (files \<noteq> [] \<and> (dir_exists w results_dir \<or> mkdir_resp w = Inr ()) \<and>
         (\<forall>r \<in> set files. get_resp w r (path_join results_dir (path_name r)) = Inr ()) \<longrightarrow>
           collect_artifacts w dir =
             (searches @
              (Mkdir results_dir, True) #
              map (\<lambda>r. (ScpGet r (path_join results_dir (path_name r)), True)) files,
              Inr ())))"
proof -
  let ?files = "concat (map (\<lambda>pattern. parse_lines (out (found pattern))) patterns)"
  let ?dir = "''speedrun_results_'' @ str_int (py_int (clock_results w))"
  let ?execs = "map (\<lambda>pattern. (Exec (find_command dir pattern), True)) patterns"
  have "\<forall>pattern \<in> set patterns. exec_resp w (find_command dir pattern) = Inr (found pattern)"
    using assms by (simp add: patterns_def find_command_def)
  then have found: "find_models w dir patterns = (?execs, Inr ?files)"
    by (rule find_models_ok)
  have none: "collect_artifacts w dir = (?execs, Inr ())" if "?files = []"
    using that found by (simp add: collect_artifacts_def io_return_def)
  have some: "collect_artifacts w dir =
      (?execs @ (Mkdir ?dir, True) #
         map (\<lambda>r. (ScpGet r (path_join ?dir (path_name r)), True)) ?files, Inr ())"
    if "?files \<noteq> []" "dir_exists w ?dir \<or> mkdir_resp w = Inr ()"
      "\<forall>r \<in> set ?files. get_resp w r (path_join ?dir (path_name r)) = Inr ()"
  proof -
    have "mkdir_exist_ok w (results_dir_name w) = ([(Mkdir ?dir, True)], Inr ())"
      using that(2) by (auto simp: mkdir_exist_ok_def results_dir_name_def)
    moreover have "download_all w (results_dir_name w) ?files =
        (map (\<lambda>r. (ScpGet r (path_join ?dir (path_name r)), True)) ?files, Inr ())"
      using download_all_ok [of ?files w "results_dir_name w"] that(3)
      by (simp add: local_file_def results_dir_name_def)
    ultimately show ?thesis
      using found that(1) by (simp add: collect_artifacts_def)
  qed
  have p: "patterns = [''*.pt'', ''*.pth'', ''*.pkl'', ''*.h5'', ''*.hdf5'']"
    by (simp add: patterns_def)
  show ?thesis
    unfolding Let_def
    using none some unfolding p find_command_def by simp
qed

text \<open>
  Claim C8 as stated fails: the path of \<^verbatim>\<open>a.pt\<close> is listed by two searches and is
  downloaded twice, into a results directory that existed before.
\<close>

lemma collect_dup:
  "collect_artifacts world_dup ''/root/demo'' =
     ([(Exec ''find /root/demo -name '*.pt' -type f'', True),
       (Exec ''find /root/demo -name '*.pth' -type f'', True),
       (Exec ''find /root/demo -name '*.pkl' -type f'', True),
       (Exec ''find /root/demo -name '*.h5' -type f'', True),
       (Exec ''find /root/demo -name '*.hdf5' -type f'', True),
       (Mkdir ''speedrun_results_1700000000'', True),
       (ScpGet ''/root/demo/a.pt'' ''speedrun_results_1700000000/a.pt'', True),
       (ScpGet ''/root/demo/a.pt'' ''speedrun_results_1700000000/a.pt'', True),
       (ScpGet ''b.pth'' ''speedrun_results_1700000000/b.pth'', True)],
      Inr ())"
proof -
  have w: "exec_resp world_dup = remote_dup" "dir_exists world_dup = (\<lambda>d. True)"
    "get_resp world_dup = (\<lambda>r l. Inr ())" "clock_results world_dup = 1700000000"
    by (simp_all add: world_dup_def world_ok_def)
  have "find_models world_dup ''/root/demo'' patterns =
     ([(Exec ''find /root/demo -name '*.pt' -type f'', True),
       (Exec ''find /root/demo -name '*.pth' -type f'', True),
       (Exec ''find /root/demo -name '*.pkl' -type f'', True),
       (Exec ''find /root/demo -name '*.h5' -type f'', True),
       (Exec ''find /root/demo -name '*.hdf5' -type f'', True)],
      Inr [''/root/demo/a.pt'', ''/root/demo/a.pt'', ''b.pth''])"
    by (simp add: patterns_def exec_def w remote_dup_def find_command_def io_return_def
        parse_lines_def strip_def is_space_def)
  then show ?thesis
    by (simp add: collect_artifacts_def results_dir_1700000000 [OF w(4)] mkdir_exist_ok_def w
        local_file_def path_name_def path_join_def io_return_def)
qed

theorem collect_keeps_duplicates:
  "exec_resp world_dup ''find /root/demo -name '*.pt' -type f'' =
     Inr \<lparr>out = ''/root/demo/a.pt\<newline>'', err = [], status = 0\<rparr> \<and>
   exec_resp world_dup ''find /root/demo -name '*.pth' -type f'' =
     Inr \<lparr>out = ''/root/demo/a.pt\<newline>b.pth\<newline>'', err = [], status = 0\<rparr> \<and>
   dir_exists world_dup ''speedrun_results_1700000000'' \<and>
   collect_artifacts world_dup ''/root/demo'' =
     ([(Exec ''find /root/demo -name '*.pt' -type f'', True),
       (Exec ''find /root/demo -name '*.pth' -type f'', True),
       (Exec ''find /root/demo -name '*.pkl' -type f'', True),
       (Exec ''find /root/demo -name '*.h5' -type f'', True),
       (Exec ''find /root/demo -name '*.hdf5' -type f'', True),
       (Mkdir ''speedrun_results_1700000000'', True),
       (ScpGet ''/root/demo/a.pt'' ''speedrun_results_1700000000/a.pt'', True),
       (ScpGet ''/root/demo/a.pt'' ''speedrun_results_1700000000/a.pt'', True),
       (ScpGet ''b.pth'' ''speedrun_results_1700000000/b.pth'', True)],
      Inr ())"
  using collect_dup by (simp add: world_dup_def remote_dup_def)

text \<open>
  A project root where nothing matches, and the root of \<open>world_ok\<close>, where \<^verbatim>\<open>model.pt\<close>
  and \<^verbatim>\<open>weights.pth\<close> are found and fetched into one directory.
\<close>

theorem collect_artifacts_steps_witness:
  "collect_artifacts world_ok ''/root/empty'' =
     ([(Exec ''find /root/empty -name '*.pt' -type f'', True),
       (Exec ''find /root/empty -name '*.pth' -type f'', True),
       (Exec ''find /root/empty -name '*.pkl' -type f'', True),
       (Exec ''find /root/empty -name '*.h5' -type f'', True),
       (Exec ''find /root/empty -name '*.hdf5' -type f'', True)],
      Inr ()) \<and>
   collect_artifacts world_ok ''/root/demo'' =
     ([(Exec ''find /root/demo -name '*.pt' -type f'', True),
       (Exec ''find /root/demo -name '*.pth' -type f'', True),
       (Exec ''find /root/demo -name '*.pkl' -type f'', True),
       (Exec ''find /root/demo -name '*.h5' -type f'', True),
       (Exec ''find /root/demo -name '*.hdf5' -type f'', True),
       (Mkdir ''speedrun_results_1700000000'', True),
       (ScpGet ''/root/demo/models/model.pt'' ''speedrun_results_1700000000/model.pt'', True),
       (ScpGet ''/root/demo/models/weights.pth'' ''speedrun_results_1700000000/weights.pth'',
        True)],
      Inr ())"
proof -
  have w: "exec_resp world_ok = remote_ok" "mkdir_resp world_ok = Inr ()"
    "get_resp world_ok = (\<lambda>r l. Inr ())" "clock_results world_ok = 1700000000"
    by (simp_all add: world_ok_def)
  have e: "\<forall>pattern \<in> set [''*.pt'', ''*.pth'', ''*.pkl'', ''*.h5'', ''*.hdf5''].
      exec_resp world_ok
        (''find '' @ ''/root/empty'' @ '' -name '' @ [CHR 0x27] @ pattern @ [CHR 0x27] @
         '' -type f'') =
        Inr \<lparr>out = [], err = [], status = 0\<rparr>"
    by (simp add: w remote_ok_def)
  have d: "\<forall>pattern \<in> set [''*.pt'', ''*.pth'', ''*.pkl'', ''*.h5'', ''*.hdf5''].
      exec_resp world_ok
        (''find '' @ ''/root/demo'' @ '' -name '' @ [CHR 0x27] @ pattern @ [CHR 0x27] @
         '' -type f'') =
        Inr (found_demo pattern)"
    by (simp add: w remote_ok_def found_demo_def)
  have n: "str_int (py_int 1700000000) = ''1700000000''"
    by (simp add: py_int_def str_int_def)
  have fe: "concat (map (\<lambda>pattern. parse_lines (out \<lparr>out = [], err = [], status = 0\<rparr>))
      [''*.pt'', ''*.pth'', ''*.pkl'', ''*.h5'', ''*.hdf5'']) = []"
    by (simp add: parse_lines_def strip_def)
  have fd: "concat (map (\<lambda>pattern. parse_lines (out (found_demo pattern)))
      [''*.pt'', ''*.pth'', ''*.pkl'', ''*.h5'', ''*.hdf5'']) =
      [''/root/demo/models/model.pt'', ''/root/demo/models/weights.pth'']"
    by (simp add: found_demo_def parse_lines_def strip_def is_space_def)
  have "collect_artifacts world_ok ''/root/empty'' =
      (map (\<lambda>pattern.
         (Exec (''find '' @ ''/root/empty'' @ '' -name '' @ [CHR 0x27] @ pattern @ [CHR 0x27] @
                '' -type f''), True))
         [''*.pt'', ''*.pth'', ''*.pkl'', ''*.h5'', ''*.hdf5''], Inr ())"
    using collect_artifacts_steps [OF e, THEN conjunct2] by (simp only: Let_def fe)
  moreover have "collect_artifacts world_ok ''/root/demo'' =
      (map (\<lambda>pattern.
         (Exec (''find '' @ ''/root/demo'' @ '' -name '' @ [CHR 0x27] @ pattern @ [CHR 0x27] @
                '' -type f''), True))
         [''*.pt'', ''*.pth'', ''*.pkl'', ''*.h5'', ''*.hdf5''] @
       (Mkdir ''speedrun_results_1700000000'', True) #
       map (\<lambda>r. (ScpGet r (path_join ''speedrun_results_1700000000'' (path_name r)), True))
         [''/root/demo/models/model.pt'', ''/root/demo/models/weights.pth''],
       Inr ())"
    using collect_artifacts_steps [OF d, THEN conjunct2]
    by (simp only: Let_def fd w n) (simp add: w)
  ultimately show ?thesis
    by (simp add: path_name_def path_join_def)
qed

section \<open>Artifacts of the same name\<close>

lemma files_after_snoc:
  "files_after (t @ [c]) fs = apply_event c (files_after t fs)"
  by (simp add: files_after_def)

lemma files_after_downloads:
  "files_after (map (\<lambda>r. (ScpGet r (local_file d r), True)) rs) fs l =
     (case filter (\<lambda>x. local_file d x = l) rs of
        [] \<Rightarrow> fs l
      | x # xs \<Rightarrow> Some (Downloaded (last (x # xs))))"
proof (induction rs rule: rev_induct)
  case Nil
  then show ?case by (simp add: files_after_def)
next
  case (snoc r rs)
  then show ?case
    by (auto simp: files_after_snoc split: list.splits)
qed

lemma dom_files_after_downloads:
  "dom (files_after (map (\<lambda>r. (ScpGet r (local_file d r), True)) rs) Map.empty) =
     local_file d ` set rs"
proof -
  have "filter (\<lambda>x. local_file d x = l) rs = [] \<longleftrightarrow> l \<notin> local_file d ` set rs" for l
    by (auto simp: filter_empty_conv)
  then show ?thesis
    by (auto simp: files_after_downloads dom_def split: list.splits)
qed

text \<open>
  Claim C10. The local path of a download is the results directory and the last component
  of the remote path. When all transfers of a list of distinct remote paths succeed and two
  of them have the same last component, both are written to the same local path, that path
  ends up holding the later of the downloads that went to it, and the local files are fewer
  than the remote paths.
\<close>

theorem same_name_downloads_collide:
  assumes "\<forall>r \<in> set rs. get_resp w r (local_file d r) = Inr ()"
    and "distinct rs" "r1 \<in> set rs" "r2 \<in> set rs" "r1 \<noteq> r2"
    and "path_name r1 = path_name r2"
  shows "local_file d r1 = local_file d r2 \<and>
     files_after (fst (download_all w d rs)) Map.empty (local_file d r1) =
       Some (Downloaded (last (filter (\<lambda>r. local_file d r = local_file d r1) rs))) \<and>
     card (dom (files_after (fst (download_all w d rs)) Map.empty)) < length rs"
proof (intro conjI)
  show same: "local_file d r1 = local_file d r2"
    using assms(6) by (simp add: local_file_def)
  have t: "fst (download_all w d rs) = map (\<lambda>r. (ScpGet r (local_file d r), True)) rs"
    using download_all_ok [OF assms(1)] by simp
  have "filter (\<lambda>r. local_file d r = local_file d r1) rs \<noteq> []"
    using assms(3) by (auto simp: filter_empty_conv)
  then show "files_after (fst (download_all w d rs)) Map.empty (local_file d r1) =
      Some (Downloaded (last (filter (\<lambda>r. local_file d r = local_file d r1) rs)))"
    by (simp add: t files_after_downloads split: list.splits)
  have "\<not> inj_on (local_file d) (set rs)"
    using same assms(3,4,5) by (auto simp: inj_on_def)
  then have "card (local_file d ` set rs) \<noteq> card (set rs)"
    using eq_card_imp_inj_on [of "set rs" "local_file d"] by auto
  moreover have "card (local_file d ` set rs) \<le> card (set rs)"
    by (simp add: card_image_le)
  ultimately have "card (local_file d ` set rs) < length rs"
    using distinct_card [OF assms(2)] by simp
  then show "card (dom (files_after (fst (download_all w d rs)) Map.empty)) < length rs"
    by (simp add: t dom_files_after_downloads)
qed

text \<open>\<^verbatim>\<open>a/model.pt\<close> and \<^verbatim>\<open>b/model.pt\<close>: one local file, holding the second.\<close>

theorem same_name_downloads_collide_witness:
  "path_name ''/root/demo/a/model.pt'' = path_name ''/root/demo/b/model.pt'' \<and>
   local_file ''speedrun_results_1700000000'' ''/root/demo/a/model.pt'' =
     ''speedrun_results_1700000000/model.pt'' \<and>
   local_file ''speedrun_results_1700000000'' ''/root/demo/b/model.pt'' =
     ''speedrun_results_1700000000/model.pt'' \<and>
   files_after
     (fst (download_all world_ok ''speedrun_results_1700000000''
        [''/root/demo/a/model.pt'', ''/root/demo/b/model.pt'']))
     Map.empty ''speedrun_results_1700000000/model.pt'' =
     Some (Downloaded ''/root/demo/b/model.pt'') \<and>
   card (dom (files_after
     (fst (download_all world_ok ''speedrun_results_1700000000''
        [''/root/demo/a/model.pt'', ''/root/demo/b/model.pt'']))
     Map.empty)) < 2"
proof -
  have n: "path_name ''/root/demo/a/model.pt'' = ''model.pt''"
    "path_name ''/root/demo/b/model.pt'' = ''model.pt''"
    by (simp_all add: path_name_def)
  have g: "\<forall>r \<in> set [''/root/demo/a/model.pt'', ''/root/demo/b/model.pt''].
      get_resp world_ok r (local_file ''speedrun_results_1700000000'' r) = Inr ()"
    by (simp add: world_ok_def)
  have ds: "distinct [''/root/demo/a/model.pt'', ''/root/demo/b/model.pt'']"
    and ne: "''/root/demo/a/model.pt'' \<noteq> ''/root/demo/b/model.pt''"
    by simp_all
  from same_name_downloads_collide [OF g ds _ _ ne]
  show ?thesis
    by (simp add: n local_file_def path_join_def)
qed


end
